theory Spec2Isabelle
  imports Complex_Main "HOL-Library.Word"
begin

text \<open>
  A model of the PayLoops backend worker: the credential vault (lib/crypto.ts, in
  src/unnamed/part_001 from line 106), the tables of lib/schema.ts (the same file, up to
  line 105) and the functions of functions/db.ts (in src/src/worker.ts, lines 33 to 294),
  followed by the properties proved of them. Line numbers below are those of these files.
\<close>

section \<open>JavaScript values used by the worker\<close>

text \<open>
  A \<^verbatim>\<open>Buffer\<close> is a sequence of octets. Strings that the functions pass on, compare or
  join are HOL strings. The text that the vault encrypts is converted to UTF-8 and back,
  which depends on its UTF-16 code units: it is a list of code units (\<open>js_string\<close>). An
  optional string parameter (\<^verbatim>\<open>webhookSecret?: string\<close>) is \<open>None\<close> when it is
  \<^verbatim>\<open>undefined\<close>. The guards \<^verbatim>\<open>if (x)\<close> and \<^verbatim>\<open>x || undefined\<close> of the source test JavaScript
  truthiness: for such a parameter they fail on \<^verbatim>\<open>undefined\<close> and on the empty string.
\<close>

type_synonym byte = "8 word"
type_synonym Buffer = "byte list"
type_synonym js_string = "16 word list"

text \<open>The code units of a string of ASCII characters.\<close>

definition utf16 :: "string \<Rightarrow> js_string" where
  "utf16 s = map (\<lambda>c. of_nat (of_char c)) s"

definition truthy :: "string option \<Rightarrow> bool" where
  "truthy x = (case x of None \<Rightarrow> False | Some s \<Rightarrow> s \<noteq> [])"

text \<open>JSON documents: the \<^verbatim>\<open>jsonb\<close> columns, webhook payloads and parsed credentials.\<close>

datatype json =
    JNull
  | JBool bool
  | JNum int
  | JStr string
  | JArr "json list"
  | JObj "(string \<times> json) list"

text \<open>
  Errors thrown by library calls of the credential vault and of the config lookup:
  the \<^verbatim>\<open>TypeError\<close> with code \<^verbatim>\<open>ERR_INVALID_ARG_TYPE\<close> that \<^verbatim>\<open>Buffer.from\<close> and
  \<^verbatim>\<open>decipher.update\<close> raise on \<^verbatim>\<open>undefined\<close>, an error raised by the cipher (with its
  message), and the \<^verbatim>\<open>SyntaxError\<close> of \<^verbatim>\<open>JSON.parse\<close>. The source defines no error
  class of its own.
\<close>

datatype js_error =
    TypeError_INVALID_ARG_TYPE
  | CryptoError string
  | SyntaxError string

subsection \<open>\<^verbatim>\<open>String(n)\<close> for integers\<close>

fun digits :: "nat \<Rightarrow> string" where
  "digits n =
     (if n < 10 then [char_of (48 + n)]
      else digits (n div 10) @ [char_of (48 + n mod 10)])"

declare digits.simps [simp del]

definition String_of_int :: "int \<Rightarrow> string" where
  "String_of_int i = (if i < 0 then CHR ''-'' # digits (nat (- i)) else digits (nat i))"

subsection \<open>Hexadecimal text and \<^verbatim>\<open>split\<close>\<close>

text \<open>
  \<^verbatim>\<open>buf.toString('hex')\<close> writes two lower-case digits per octet. \<^verbatim>\<open>Buffer.from(s, 'hex')\<close>
  reads pairs of digits of either case and stops at the first pair that is not
  hexadecimal; a trailing single character is dropped.
\<close>

definition hex_digit :: "nat \<Rightarrow> char" where
  "hex_digit n = (if n < 10 then char_of (48 + n) else char_of (87 + n))"

definition toString_hex :: "Buffer \<Rightarrow> string" where
  "toString_hex buf =
     concat (map (\<lambda>b. [hex_digit (unat b div 16), hex_digit (unat b mod 16)]) buf)"

definition hex_val :: "char \<Rightarrow> nat option" where
  "hex_val c =
     (let n = (of_char c :: nat) in
      if 48 \<le> n \<and> n \<le> 57 then Some (n - 48)
      else if 97 \<le> n \<and> n \<le> 102 then Some (n - 87)
      else if 65 \<le> n \<and> n \<le> 70 then Some (n - 55)
      else None)"

fun Buffer_from_hex :: "string \<Rightarrow> Buffer" where
  "Buffer_from_hex (a # b # rest) =
     (case (hex_val a, hex_val b) of
        (Some h, Some l) \<Rightarrow> of_nat (h * 16 + l) # Buffer_from_hex rest
      | _ \<Rightarrow> [])"
| "Buffer_from_hex _ = []"

text \<open>
  \<^verbatim>\<open>s.split(sep)\<close> for a one-character separator: the pieces between the separators,
  always at least one (\<^verbatim>\<open>''.split(':')\<close> is \<^verbatim>\<open>['']\<close>).
\<close>

fun js_split :: "char \<Rightarrow> string \<Rightarrow> string list" where
  "js_split sep [] = [[]]"
| "js_split sep (c # cs) =
     (if c = sep then [] # js_split sep cs
      else (case js_split sep cs of
              p # ps \<Rightarrow> (c # p) # ps
            | [] \<Rightarrow> [[c]]))"

subsection \<open>UTF-8 and UTF-16\<close>

text \<open>
  Encoding a string as \<^verbatim>\<open>'utf8'\<close> (\<^verbatim>\<open>cipher.update(text, 'utf8', ...)\<close>) reads the code
  units as code points, where a high surrogate followed by a low surrogate is one code
  point above \<^verbatim>\<open>U+FFFF\<close> and any other surrogate is replaced by \<^verbatim>\<open>U+FFFD\<close>, and writes each
  code point as one to four octets.
\<close>

definition is_high :: "16 word \<Rightarrow> bool" where
  "is_high u \<longleftrightarrow> 0xD800 \<le> unat u \<and> unat u \<le> 0xDBFF"

definition is_low :: "16 word \<Rightarrow> bool" where
  "is_low u \<longleftrightarrow> 0xDC00 \<le> unat u \<and> unat u \<le> 0xDFFF"

fun code_points :: "js_string \<Rightarrow> nat list" where
  "code_points [] = []"
| "code_points (u # us) =
     (if is_high u then
        (case us of
           l # rest \<Rightarrow>
             if is_low l
             then (0x10000 + (unat u - 0xD800) * 0x400 + (unat l - 0xDC00)) # code_points rest
             else 0xFFFD # code_points us
         | [] \<Rightarrow> [0xFFFD])
      else if is_low u then 0xFFFD # code_points us
      else unat u # code_points us)"

definition utf8_octets :: "nat \<Rightarrow> nat list" where
  "utf8_octets c =
     (if c < 0x80 then [c]
      else if c < 0x800 then [0xC0 + c div 64, 0x80 + c mod 64]
      else if c < 0x10000 then
        [0xE0 + c div 4096, 0x80 + c div 64 mod 64, 0x80 + c mod 64]
      else
        [0xF0 + c div 262144, 0x80 + c div 4096 mod 64,
         0x80 + c div 64 mod 64, 0x80 + c mod 64])"

definition utf8_encode :: "js_string \<Rightarrow> Buffer" where
  "utf8_encode s = map of_nat (concat (map utf8_octets (code_points s)))"

text \<open>
  Decoding octets as \<^verbatim>\<open>'utf8'\<close> (\<^verbatim>\<open>decipher.update(..., 'utf8')\<close> and
  \<^verbatim>\<open>decipher.final('utf8')\<close>) reads the well-formed sequences as code points and writes
  \<^verbatim>\<open>U+FFFD\<close> for every maximal part of an ill-formed sequence; a code point above
  \<^verbatim>\<open>U+FFFF\<close> becomes a surrogate pair. A byte order mark is kept.
\<close>

definition continuation :: "nat \<Rightarrow> bool" where
  "continuation b \<longleftrightarrow> 0x80 \<le> b \<and> b \<le> 0xBF"

fun utf8_code_points :: "nat list \<Rightarrow> nat list" where
  "utf8_code_points [] = []"
| "utf8_code_points (b0 # bs) =
     (if b0 < 0x80 then b0 # utf8_code_points bs
      else if 0xC2 \<le> b0 \<and> b0 \<le> 0xDF then
        (case bs of
           b1 # r1 \<Rightarrow>
             if continuation b1
             then ((b0 - 0xC0) * 64 + (b1 - 0x80)) # utf8_code_points r1
             else 0xFFFD # utf8_code_points bs
         | [] \<Rightarrow> [0xFFFD])
      else if 0xE0 \<le> b0 \<and> b0 \<le> 0xEF then
        (case bs of
           b1 # r1 \<Rightarrow>
             if (if b0 = 0xE0 then 0xA0 else 0x80) \<le> b1
                \<and> b1 \<le> (if b0 = 0xED then 0x9F else 0xBF)
             then
               (case r1 of
                  b2 # r2 \<Rightarrow>
                    if continuation b2
                    then ((b0 - 0xE0) * 4096 + (b1 - 0x80) * 64 + (b2 - 0x80))
                           # utf8_code_points r2
                    else 0xFFFD # utf8_code_points r1
                | [] \<Rightarrow> [0xFFFD])
             else 0xFFFD # utf8_code_points bs
         | [] \<Rightarrow> [0xFFFD])
      else if 0xF0 \<le> b0 \<and> b0 \<le> 0xF4 then
        (case bs of
           b1 # r1 \<Rightarrow>
             if (if b0 = 0xF0 then 0x90 else 0x80) \<le> b1
                \<and> b1 \<le> (if b0 = 0xF4 then 0x8F else 0xBF)
             then
               (case r1 of
                  b2 # r2 \<Rightarrow>
                    if continuation b2
                    then
                      (case r2 of
                         b3 # r3 \<Rightarrow>
                           if continuation b3
                           then ((b0 - 0xF0) * 262144 + (b1 - 0x80) * 4096
                                   + (b2 - 0x80) * 64 + (b3 - 0x80))
                                  # utf8_code_points r3
                           else 0xFFFD # utf8_code_points r2
                       | [] \<Rightarrow> [0xFFFD])
                    else 0xFFFD # utf8_code_points r1
                | [] \<Rightarrow> [0xFFFD])
             else 0xFFFD # utf8_code_points bs
         | [] \<Rightarrow> [0xFFFD])
      else 0xFFFD # utf8_code_points bs)"

definition utf16_units :: "nat \<Rightarrow> js_string" where
  "utf16_units c =
     (if c < 0x10000 then [of_nat c]
      else [of_nat (0xD800 + (c - 0x10000) div 0x400),
            of_nat (0xDC00 + (c - 0x10000) mod 0x400)])"

definition utf8_decode :: "Buffer \<Rightarrow> js_string" where
  "utf8_decode buf = concat (map utf16_units (utf8_code_points (map unat buf)))"

text \<open>
  A string is well formed when it has no unpaired surrogate: every high surrogate is
  followed by a low one, and every low surrogate follows a high one. A Unicode scalar
  value is a code point that is no surrogate.
\<close>

fun well_formed :: "js_string \<Rightarrow> bool" where
  "well_formed [] = True"
| "well_formed (u # us) =
     (if is_high u then
        (case us of l # rest \<Rightarrow> is_low l \<and> well_formed rest | [] \<Rightarrow> False)
      else \<not> is_low u \<and> well_formed us)"

definition scalar :: "nat \<Rightarrow> bool" where
  "scalar c \<longleftrightarrow> c < 0x110000 \<and> \<not> (0xD800 \<le> c \<and> c \<le> 0xDFFF)"

text \<open>
  \<^verbatim>\<open>s.toWellFormed()\<close>: the string with \<^verbatim>\<open>U+FFFD\<close> in place of every unpaired surrogate.
\<close>

fun toWellFormed :: "js_string \<Rightarrow> js_string" where
  "toWellFormed [] = []"
| "toWellFormed (u # us) =
     (if is_high u then
        (case us of
           l # rest \<Rightarrow>
             if is_low l then u # l # toWellFormed rest
             else 0xFFFD # toWellFormed us
         | [] \<Rightarrow> [0xFFFD])
      else if is_low u then 0xFFFD # toWellFormed us
      else u # toWellFormed us)"

section \<open>Credential vault (lib/crypto.ts, src/unnamed/part_001 lines 106 to 141)\<close>

text \<open>
  The vault calls Node's \<^verbatim>\<open>crypto\<close> module, which is not part of the repository. Its
  functions are parameters of the model, at the interface the source uses:
  \<^item> \<open>createHash_sha256 s\<close> is \<^verbatim>\<open>createHash('sha256').update(s).digest()\<close>;
  \<^item> \<open>cipher_gcm key iv octets\<close> is, for the UTF-8 octets of \<^verbatim>\<open>text\<close>, the pair of
    \<^verbatim>\<open>cipher.update(text, 'utf8', 'hex') + cipher.final('hex')\<close> and \<^verbatim>\<open>cipher.getAuthTag()\<close>
    for \<^verbatim>\<open>cipher = createCipheriv('aes-256-gcm', key, iv)\<close>;
  \<^item> \<open>decipher_init key iv tag\<close> is the error, if any, that
    \<^verbatim>\<open>createDecipheriv('aes-256-gcm', key, iv)\<close> or \<^verbatim>\<open>setAuthTag(tag)\<close> raises on its
    arguments;
  \<^item> \<open>decipher_gcm key iv tag encrypted\<close> is the octets of which
    \<^verbatim>\<open>decipher.update(encrypted, 'hex', 'utf8') + decipher.final('utf8')\<close> is the UTF-8
    decoding, or the error raised there (a tag that does not verify among them);
  \<^item> \<open>createHmac_sha256 key data\<close> is the digest
    \<^verbatim>\<open>createHmac('sha256', key).update(data).digest()\<close>; \<^verbatim>\<open>digest('hex')\<close> is its hex text,
    \<open>toString_hex\<close> of it.
  The random initialisation vector \<^verbatim>\<open>randomBytes(IV_LENGTH)\<close> is an argument of
  \<open>encrypt\<close>; \<open>ENCRYPTION_KEY\<close> is the configured secret \<^verbatim>\<open>env.ENCRYPTION_KEY\<close>.
\<close>

record node_crypto =
  createHash_sha256 :: "string \<Rightarrow> Buffer"
  cipher_gcm :: "Buffer \<Rightarrow> Buffer \<Rightarrow> Buffer \<Rightarrow> string \<times> Buffer"
  decipher_init :: "Buffer \<Rightarrow> Buffer \<Rightarrow> Buffer \<Rightarrow> js_error option"
  decipher_gcm :: "Buffer \<Rightarrow> Buffer \<Rightarrow> Buffer \<Rightarrow> string \<Rightarrow> js_error + Buffer"
  createHmac_sha256 :: "string \<Rightarrow> string \<Rightarrow> Buffer"

definition IV_LENGTH :: nat where
  "IV_LENGTH = 16"

text \<open>
  What the vault relies on from SHA-256 and AES-256-GCM: the digest has 32 octets; and
  for a key of 32 octets and an initialisation vector of \<open>IV_LENGTH\<close> octets, the
  ciphertext that the cipher returns is hex text (it holds no colon), and the decipher
  created with the same key, vector and tag accepts them and returns the octets of the
  plaintext from that ciphertext.
\<close>

definition aes_256_gcm :: "node_crypto \<Rightarrow> bool" where
  "aes_256_gcm lib \<longleftrightarrow>
     (\<forall>s. length (createHash_sha256 lib s) = 32) \<and>
     (\<forall>key iv plaintext.
        length key = 32 \<and> length iv = IV_LENGTH \<longrightarrow>
        (case cipher_gcm lib key iv plaintext of
           (encrypted, authTag) \<Rightarrow>
             CHR '':'' \<notin> set encrypted \<and>
             decipher_init lib key iv authTag = None \<and>
             decipher_gcm lib key iv authTag encrypted = Inr plaintext))"

definition getKey :: "node_crypto \<Rightarrow> string \<Rightarrow> Buffer" where
  "getKey lib ENCRYPTION_KEY = createHash_sha256 lib ENCRYPTION_KEY"

definition encrypt :: "node_crypto \<Rightarrow> string \<Rightarrow> Buffer \<Rightarrow> js_string \<Rightarrow> string" where
  "encrypt lib ENCRYPTION_KEY iv text =
     (let (encrypted, authTag) =
            cipher_gcm lib (getKey lib ENCRYPTION_KEY) iv (utf8_encode text)
      in toString_hex iv @ '':'' @ toString_hex authTag @ '':'' @ encrypted)"

text \<open>
  \<^verbatim>\<open>const [ivHex, authTagHex, encrypted] = encryptedText.split(':')\<close> takes the first three
  pieces; a missing piece is \<^verbatim>\<open>undefined\<close> and pieces after the third are dropped. The
  statements then run in order: \<^verbatim>\<open>Buffer.from(authTagHex, 'hex')\<close> throws on
  \<^verbatim>\<open>undefined\<close>, then the decipher is created and given the tag, then
  \<^verbatim>\<open>decipher.update(encrypted, ...)\<close> throws on \<^verbatim>\<open>undefined\<close>; otherwise the decrypted
  octets are returned as a string.
\<close>

definition decrypt :: "node_crypto \<Rightarrow> string \<Rightarrow> string \<Rightarrow> js_error + js_string" where
  "decrypt lib ENCRYPTION_KEY encryptedText =
     (case js_split CHR '':'' encryptedText of
        [] \<Rightarrow> Inl TypeError_INVALID_ARG_TYPE
      | ivHex # rest1 \<Rightarrow>
          (case rest1 of
             [] \<Rightarrow> Inl TypeError_INVALID_ARG_TYPE
           | authTagHex # rest2 \<Rightarrow>
               (let iv = Buffer_from_hex ivHex;
                    authTag = Buffer_from_hex authTagHex;
                    key = getKey lib ENCRYPTION_KEY
                in case decipher_init lib key iv authTag of
                     Some e \<Rightarrow> Inl e
                   | None \<Rightarrow>
                       (case rest2 of
                          [] \<Rightarrow> Inl TypeError_INVALID_ARG_TYPE
                        | encrypted # _ \<Rightarrow>
                            (case decipher_gcm lib key iv authTag encrypted of
                               Inl e \<Rightarrow> Inl e
                             | Inr decrypted \<Rightarrow> Inr (utf8_decode decrypted))))))"

section \<open>The relational store (lib/schema.ts, src/unnamed/part_001 lines 1 to 105)\<close>

text \<open>
  One record per table, one field per column, in the order of the schema. A \<^verbatim>\<open>uuid\<close>,
  \<^verbatim>\<open>varchar\<close> or \<^verbatim>\<open>text\<close> column is a string, an \<^verbatim>\<open>integer\<close> column an integer, a
  \<^verbatim>\<open>timestamp\<close> column a number of milliseconds since the epoch, and a column without
  \<^verbatim>\<open>notNull()\<close> an option (\<open>None\<close> is SQL \<^verbatim>\<open>NULL\<close>). A table is the list of its rows in
  the order in which a query without \<^verbatim>\<open>ORDER BY\<close> scans them, so that \<^verbatim>\<open>limit(1)\<close>
  returns the first match of that list.

  The store is assumed to accept every statement: connection failures and constraint
  violations (a \<^verbatim>\<open>varchar\<close> length, the range of \<^verbatim>\<open>integer\<close>) are not modelled.
\<close>

record merchant =
  m_id :: string
  m_name :: string
  m_email :: string
  m_passwordHash :: string
  m_webhookUrl :: "string option"
  m_webhookSecret :: "string option"
  m_createdAt :: int
  m_updatedAt :: int

record processor_config =
  pc_id :: string
  pc_merchantId :: string
  pc_processor :: string
  pc_credentialsEncrypted :: string
  pc_priority :: int
  pc_enabled :: bool
  pc_testMode :: bool
  pc_createdAt :: int
  pc_updatedAt :: int

record order_row =
  o_id :: string
  o_merchantId :: string
  o_externalId :: string
  o_amount :: int
  o_currency :: string
  o_status :: string
  o_processor :: "string option"
  o_processorOrderId :: "string option"
  o_metadata :: "json option"
  o_customerId :: "string option"
  o_customerEmail :: "string option"
  o_description :: "string option"
  o_returnUrl :: "string option"
  o_cancelUrl :: "string option"
  o_workflowId :: "string option"
  o_createdAt :: int
  o_updatedAt :: int

record transaction_row =
  tx_id :: string
  tx_orderId :: string
  tx_type :: string
  tx_amount :: int
  tx_status :: string
  tx_processorTransactionId :: "string option"
  tx_processorResponse :: "json option"
  tx_errorCode :: "string option"
  tx_errorMessage :: "string option"
  tx_createdAt :: int

record webhook_event =
  we_id :: string
  we_merchantId :: string
  we_orderId :: "string option"
  we_eventType :: string
  we_payload :: json
  we_status :: string
  we_attempts :: int
  we_lastAttemptAt :: "int option"
  we_nextRetryAt :: "int option"
  we_deliveredAt :: "int option"
  we_workflowId :: "string option"
  we_createdAt :: int

record store =
  merchants :: "merchant list"
  processorConfigs :: "processor_config list"
  orders :: "order_row list"
  transactions :: "transaction_row list"
  webhookEvents :: "webhook_event list"

text \<open>
  \<^verbatim>\<open>db.update(t).set(values).where(eq(t.id, k))\<close> rewrites every row whose id is \<open>k\<close>.
  A key of \<^verbatim>\<open>values\<close> whose value is \<^verbatim>\<open>undefined\<close> is left out of the \<^verbatim>\<open>SET\<close> clause, so
  that column keeps its value; the source relies on this in
  \<^verbatim>\<open>processorOrderId: processorOrderId || undefined\<close>. A column is set to \<^verbatim>\<open>NULL\<close> only by
  the value \<^verbatim>\<open>null\<close>, which the source never passes. In the records below a field is
  \<open>None\<close> when its key is \<^verbatim>\<open>undefined\<close>.
\<close>

record order_values =
  set_o_status :: "string option"
  set_o_processorOrderId :: "string option"
  set_o_updatedAt :: "int option"

definition set_order :: "order_values \<Rightarrow> order_row \<Rightarrow> order_row" where
  "set_order v r =
     r\<lparr>o_status := (case set_o_status v of None \<Rightarrow> o_status r | Some x \<Rightarrow> x),
       o_processorOrderId :=
         (case set_o_processorOrderId v of None \<Rightarrow> o_processorOrderId r | Some x \<Rightarrow> Some x),
       o_updatedAt := (case set_o_updatedAt v of None \<Rightarrow> o_updatedAt r | Some x \<Rightarrow> x)\<rparr>"

definition update_orders :: "order_values \<Rightarrow> string \<Rightarrow> store \<Rightarrow> store" where
  "update_orders v k db =
     db\<lparr>orders := map (\<lambda>r. if o_id r = k then set_order v r else r) (orders db)\<rparr>"

record webhook_event_values =
  set_we_status :: "string option"
  set_we_attempts :: "int option"
  set_we_lastAttemptAt :: "int option"
  set_we_deliveredAt :: "int option"
  set_we_nextRetryAt :: "int option"

definition set_webhook_event :: "webhook_event_values \<Rightarrow> webhook_event \<Rightarrow> webhook_event" where
  "set_webhook_event v r =
     r\<lparr>we_status := (case set_we_status v of None \<Rightarrow> we_status r | Some x \<Rightarrow> x),
       we_attempts := (case set_we_attempts v of None \<Rightarrow> we_attempts r | Some x \<Rightarrow> x),
       we_lastAttemptAt :=
         (case set_we_lastAttemptAt v of None \<Rightarrow> we_lastAttemptAt r | Some x \<Rightarrow> Some x),
       we_deliveredAt :=
         (case set_we_deliveredAt v of None \<Rightarrow> we_deliveredAt r | Some x \<Rightarrow> Some x),
       we_nextRetryAt :=
         (case set_we_nextRetryAt v of None \<Rightarrow> we_nextRetryAt r | Some x \<Rightarrow> Some x)\<rparr>"

definition update_webhookEvents :: "webhook_event_values \<Rightarrow> string \<Rightarrow> store \<Rightarrow> store" where
  "update_webhookEvents v k db =
     db\<lparr>webhookEvents :=
          map (\<lambda>r. if we_id r = k then set_webhook_event v r else r) (webhookEvents db)\<rparr>"

section \<open>What a function call reads from outside the store\<close>

text \<open>
  The functions of functions/db.ts read the clock, call \<^verbatim>\<open>JSON\<close> and \<^verbatim>\<open>fetch\<close>, and let
  the database fill in column defaults. These are parameters of the model:
  \<^item> \<open>clock k\<close> is the value of the \<open>k\<close>-th reading of the clock (\<^verbatim>\<open>Date.now()\<close> or
    \<^verbatim>\<open>new Date()\<close>) that one call makes, counted from 0 in evaluation order;
  \<^item> \<open>JSON_stringify\<close>, \<open>JSON_parse\<close> are the functions of that name (a payload is a JSON
    document, on which \<^verbatim>\<open>JSON.stringify\<close> returns a string);
  \<^item> \<open>fetch\<close> maps the request to what awaiting it gives: a response with its status code,
    or a thrown value (network failure, or the 30 second \<^verbatim>\<open>AbortSignal\<close>);
  \<^item> \<open>defaultRandom\<close> and \<open>defaultNow\<close> are the id and the creation time the database
    gives to an inserted row.
\<close>

datatype thrown = Error string | NotAnError

record request =
  req_url :: string
  req_method :: string
  req_headers :: "(string \<times> string) list"
  req_body :: string
  req_timeout :: nat

datatype fetch_outcome = Response nat | Throws thrown

record runtime =
  clock :: "nat \<Rightarrow> int"
  JSON_stringify :: "json \<Rightarrow> string"
  JSON_parse :: "js_string \<Rightarrow> js_error + json"
  fetch :: "request \<Rightarrow> fetch_outcome"
  defaultRandom :: string
  defaultNow :: int

text \<open>\<^verbatim>\<open>response.ok\<close> is true for the status codes 200 to 299.\<close>

definition response_ok :: "nat \<Rightarrow> bool" where
  "response_ok code = (200 \<le> code \<and> code \<le> 299)"

text \<open>
  \<^verbatim>\<open>new Date(ms)\<close> keeps the integral part of a number of milliseconds (fractions are
  cut off towards zero).
\<close>

definition new_Date :: "rat \<Rightarrow> int" where
  "new_Date ms = (if 0 \<le> ms then \<lfloor>ms\<rfloor> else \<lceil>ms\<rceil>)"

section \<open>The worker's functions (functions/db.ts, src/src/worker.ts lines 33 to 294)\<close>

text \<open>
  \<^verbatim>\<open>db.select().from(t).where(p).limit(1)\<close> is the list of the first row that satisfies
  \<open>p\<close>, or the empty list.
\<close>

definition select_limit_1 :: "('a \<Rightarrow> bool) \<Rightarrow> 'a list \<Rightarrow> 'a list" where
  "select_limit_1 p rows = take 1 (filter p rows)"

subsection \<open>\<^verbatim>\<open>getProcessorConfig\<close>\<close>

record PaymentConfig =
  merchantId :: string
  processor :: string
  testMode :: bool
  credentials :: json

text \<open>
  The result is \<open>Inr None\<close> for \<^verbatim>\<open>null\<close>, \<open>Inr (Some c)\<close> for a configuration, and
  \<open>Inl e\<close> when \<^verbatim>\<open>decrypt\<close> or \<^verbatim>\<open>JSON.parse\<close> throws \<open>e\<close>.
\<close>

definition getProcessorConfig ::
  "node_crypto \<Rightarrow> string \<Rightarrow> runtime \<Rightarrow> string \<Rightarrow> string \<Rightarrow> store
     \<Rightarrow> js_error + PaymentConfig option" where
  "getProcessorConfig lib ENCRYPTION_KEY rt merchant_id processor_name db =
     (let config =
            select_limit_1
              (\<lambda>c. pc_merchantId c = merchant_id \<and> pc_processor c = processor_name)
              (processorConfigs db)
      in case config of
           [] \<Rightarrow> Inr None
         | c # _ \<Rightarrow>
             (case decrypt lib ENCRYPTION_KEY (pc_credentialsEncrypted c) of
                Inl e \<Rightarrow> Inl e
              | Inr text \<Rightarrow>
                  (case JSON_parse rt text of
                     Inl e \<Rightarrow> Inl e
                   | Inr creds \<Rightarrow>
                       Inr (Some \<lparr>merchantId = merchant_id, processor = processor_name,
                                  testMode = pc_testMode c, credentials = creds\<rparr>))))"

subsection \<open>\<^verbatim>\<open>updateOrderStatus\<close>\<close>

record UpdateOrderStatusInput =
  orderId :: string
  status :: string
  processorOrderId :: "string option"
  processorTransactionId :: "string option"

text \<open>
  \<^verbatim>\<open>db.insert(transactions).values({orderId, type, amount, status, processorTransactionId})\<close>
  appends one row; the columns that are not given take their defaults.
\<close>

definition insert_transaction ::
  "runtime \<Rightarrow> string \<Rightarrow> string \<Rightarrow> int \<Rightarrow> string \<Rightarrow> string \<Rightarrow> store \<Rightarrow> store" where
  "insert_transaction rt order_id ty amount st transaction_id db =
     db\<lparr>transactions := transactions db @
          [\<lparr>tx_id = defaultRandom rt, tx_orderId = order_id, tx_type = ty,
            tx_amount = amount, tx_status = st,
            tx_processorTransactionId = Some transaction_id,
            tx_processorResponse = None, tx_errorCode = None, tx_errorMessage = None,
            tx_createdAt = defaultNow rt\<rparr>]\<rparr>"

definition updateOrderStatus :: "runtime \<Rightarrow> UpdateOrderStatusInput \<Rightarrow> store \<Rightarrow> store" where
  "updateOrderStatus rt input db =
     (let db1 =
            update_orders
              \<lparr>set_o_status = Some (status input),
               set_o_processorOrderId =
                 (if truthy (processorOrderId input) then processorOrderId input else None),
               set_o_updatedAt = Some (clock rt 0)\<rparr>
              (orderId input) db
      in case processorTransactionId input of
           None \<Rightarrow> db1
         | Some transaction_id \<Rightarrow>
             if transaction_id = [] then db1
             else
               (case select_limit_1 (\<lambda>r. o_id r = orderId input) (orders db1) of
                  [] \<Rightarrow> db1
                | order # _ \<Rightarrow>
                    insert_transaction rt (orderId input)
                      (if status input = ''captured'' then ''capture''
                       else if status input = ''authorized'' then ''authorization''
                       else ''authorization'')
                      (o_amount order)
                      (if status input = ''failed'' then ''failed'' else ''success'')
                      transaction_id db1))"

subsection \<open>\<^verbatim>\<open>getRetryDelay\<close>\<close>

text \<open>
  The source computes with JavaScript numbers. \<^verbatim>\<open>Math.pow(2, attempt - 1)\<close> is a power of
  two, so for an integer \<^verbatim>\<open>attempt\<close> the product with 60000 is exact until the double
  overflows; it then is \<^verbatim>\<open>Infinity\<close> and \<^verbatim>\<open>Math.min\<close> returns \<^verbatim>\<open>maxDelay\<close>, as it does for
  the exact value. The model computes with exact rationals (for \<open>attempt < 1\<close> the delay
  is a fraction of the base delay, as in the source).
\<close>

definition getRetryDelay :: "int \<Rightarrow> rat" where
  "getRetryDelay attempt =
     (let baseDelay = 60 * 1000;
          maxDelay = 24 * 60 * 60 * 1000;
          delay = baseDelay * 2 powi (attempt - 1)
      in min delay maxDelay)"

subsection \<open>\<^verbatim>\<open>deliverWebhook\<close>\<close>

record WebhookDeliveryInput =
  webhookEventId :: string
  webhookUrl :: string
  webhookSecret :: "string option"
  payload :: json

record WebhookDeliveryResult =
  success :: bool
  statusCode :: "nat option"
  attempts :: int
  deliveredAt :: "int option"
  errorMessage :: "string option"

text \<open>
  The request that the \<^verbatim>\<open>try\<close> block hands to \<^verbatim>\<open>fetch\<close> (lines 197 to 217 of
  worker.ts). The headers are kept in insertion order. \<^verbatim>\<open>if (webhookSecret)\<close> is false for
  \<^verbatim>\<open>undefined\<close> and for the empty string.
\<close>

definition header :: "(string \<times> string) list \<Rightarrow> string \<Rightarrow> string" where
  "header headers name = (case map_of headers name of None \<Rightarrow> ''undefined'' | Some v \<Rightarrow> v)"

definition webhook_request :: "node_crypto \<Rightarrow> runtime \<Rightarrow> WebhookDeliveryInput \<Rightarrow> request" where
  "webhook_request lib rt input =
     (let body = JSON_stringify rt (payload input);
          headers =
            [(''Content-Type'', ''application/json''),
             (''X-Loop-Event-Id'', webhookEventId input),
             (''X-Loop-Timestamp'', String_of_int (clock rt 0))];
          signed =
            (case webhookSecret input of
               None \<Rightarrow> headers
             | Some secret \<Rightarrow>
                 if secret = [] then headers
                 else
                   (let timestamp = header headers ''X-Loop-Timestamp'';
                        signaturePayload = timestamp @ ''.'' @ body;
                        signature =
                          toString_hex (createHmac_sha256 lib secret signaturePayload)
                    in headers @ [(''X-Loop-Signature'', ''v1='' @ signature)]))
      in \<lparr>req_url = webhookUrl input, req_method = ''POST'', req_headers = signed,
          req_body = body, req_timeout = 30000\<rparr>)"

text \<open>
  The number of the attempt being made (lines 192 to 194): one more than the stored
  count of the event, or 1 when the event does not exist
  (\<^verbatim>\<open>(event[0]?.attempts || 0) + 1\<close>).
\<close>

definition next_attempt :: "store \<Rightarrow> string \<Rightarrow> int" where
  "next_attempt db k =
     (let event = select_limit_1 (\<lambda>e. we_id e = k) (webhookEvents db)
      in (case event of
            [] \<Rightarrow> 0
          | e # _ \<Rightarrow> (if we_attempts e = 0 then 0 else we_attempts e)) + 1)"

text \<open>
  One delivery attempt. The result is the returned \<^verbatim>\<open>WebhookDeliveryResult\<close>, the store
  after the call, and the requests sent. The function has no path that throws: the
  \<^verbatim>\<open>catch\<close> block turns a thrown value into a result.
\<close>

definition deliverWebhook ::
  "node_crypto \<Rightarrow> runtime \<Rightarrow> WebhookDeliveryInput \<Rightarrow> store
     \<Rightarrow> WebhookDeliveryResult \<times> store \<times> request list" where
  "deliverWebhook lib rt input db =
     (let n = next_attempt db (webhookEventId input);
          req = webhook_request lib rt input
      in case fetch rt req of
           Response code \<Rightarrow>
             (let ok = response_ok code;
                  db' =
                    update_webhookEvents
                      \<lparr>set_we_status = Some (if ok then ''delivered'' else ''pending''),
                       set_we_attempts = Some n,
                       set_we_lastAttemptAt = Some (clock rt 1),
                       set_we_deliveredAt = (if ok then Some (clock rt 2) else None),
                       set_we_nextRetryAt =
                         (if ok then None
                          else Some (new_Date (of_int (clock rt 2) + getRetryDelay n)))\<rparr>
                      (webhookEventId input) db
              in (\<lparr>success = ok, statusCode = Some code, attempts = n,
                   deliveredAt = (if ok then Some (clock rt 3) else None),
                   errorMessage = (if ok then None else Some (''HTTP '' @ digits code))\<rparr>,
                  db', [req]))
         | Throws error \<Rightarrow>
             (let message =
                    (case error of Error m \<Rightarrow> m | NotAnError \<Rightarrow> ''Unknown error'');
                  db' =
                    update_webhookEvents
                      \<lparr>set_we_status = Some (if n \<ge> 5 then ''failed'' else ''pending''),
                       set_we_attempts = Some n,
                       set_we_lastAttemptAt = Some (clock rt 1),
                       set_we_deliveredAt = None,
                       set_we_nextRetryAt =
                         (if n \<ge> 5 then None
                          else Some (new_Date (of_int (clock rt 2) + getRetryDelay n)))\<rparr>
                      (webhookEventId input) db
              in (\<lparr>success = False, statusCode = None, attempts = n, deliveredAt = None,
                   errorMessage = Some message\<rparr>,
                  db', [req])))"

section \<open>Example values\<close>

text \<open>
  Concrete values on which the functions are run in the examples below. \<open>demo_crypto\<close>
  stands in for Node's \<^verbatim>\<open>crypto\<close> module (it is no cipher: the octets are only written
  as hex text and the tag is sixteen zero octets); \<open>demo_runtime outcome t0\<close> is a run in
  which the clock starts at \<open>t0\<close> and \<^verbatim>\<open>fetch\<close> ends in \<open>outcome\<close>. The theorems hold for
  every library and every runtime.
\<close>

definition demo_tag :: Buffer where
  "demo_tag = [0, 0, 0, 0, 0, 0, 0, 0, 0, 0, 0, 0, 0, 0, 0, 0]"

definition demo_crypto :: node_crypto where
  "demo_crypto =
     \<lparr>createHash_sha256 = (\<lambda>s. take 32 (map (\<lambda>c. of_nat (of_char c)) s @ replicate 32 0)),
      cipher_gcm = (\<lambda>key iv octets. (toString_hex octets, demo_tag)),
      decipher_init =
        (\<lambda>key iv tag.
           if iv = [] then Some (CryptoError ''Invalid initialization vector'')
           else if length tag \<noteq> 16
             then Some (CryptoError ''Invalid authentication tag length'')
           else None),
      decipher_gcm =
        (\<lambda>key iv tag encrypted.
           if tag = demo_tag
           then Inr (Buffer_from_hex encrypted)
           else Inl (CryptoError ''Unsupported state or unable to authenticate data'')),
      createHmac_sha256 = (\<lambda>key data. map (\<lambda>c. of_nat (of_char c)) (key @ data))\<rparr>"

definition demo_runtime :: "fetch_outcome \<Rightarrow> int \<Rightarrow> runtime" where
  "demo_runtime outcome t0 =
     \<lparr>clock = (\<lambda>k. t0 + int k),
      JSON_stringify = (\<lambda>j. ''{}''),
      JSON_parse =
        (\<lambda>s. if s = utf16 ''{}'' then Inr (JObj [])
             else if s = utf16 ''[]'' then Inr (JArr [])
             else Inl (SyntaxError ''Unexpected token'')),
      fetch = (\<lambda>r. outcome),
      defaultRandom = ''7d0c3a52-0000-4000-8000-000000000001'',
      defaultNow = t0\<rparr>"

definition demo_event :: webhook_event where
  "demo_event =
     \<lparr>we_id = ''evt-1'', we_merchantId = ''m-1'', we_orderId = None,
      we_eventType = ''order.captured'', we_payload = JObj [], we_status = ''pending'',
      we_attempts = 0, we_lastAttemptAt = None, we_nextRetryAt = None,
      we_deliveredAt = None, we_workflowId = None, we_createdAt = 1000\<rparr>"

definition demo_store :: store where
  "demo_store =
     \<lparr>merchants = [], processorConfigs = [], orders = [], transactions = [],
      webhookEvents = [demo_event]\<rparr>"

definition demo_delivery :: WebhookDeliveryInput where
  "demo_delivery =
     \<lparr>webhookEventId = ''evt-1'', webhookUrl = ''https://merchant.example/hook'',
      webhookSecret = None, payload = JObj []\<rparr>"

text \<open>The store after a first attempt on \<open>demo_event\<close> that was answered with HTTP 500.\<close>

definition demo_failed_once :: store where
  "demo_failed_once =
     fst (snd (deliverWebhook demo_crypto (demo_runtime (Response 500) 1700000000000)
                 demo_delivery demo_store))"

text \<open>
  The store after four attempts on \<open>demo_event\<close> in which \<^verbatim>\<open>fetch\<close> threw, each made at
  the retry time that the attempt before it had scheduled.
\<close>

definition demo_throw :: "int \<Rightarrow> store \<Rightarrow> store" where
  "demo_throw t db =
     fst (snd (deliverWebhook demo_crypto (demo_runtime (Throws (Error ''fetch failed'')) t)
                 demo_delivery db))"

definition demo_failed_4 :: store where
  "demo_failed_4 =
     demo_throw 1700000420006 (demo_throw 1700000180004 (demo_throw 1700000060002
       (demo_throw 1700000000000 demo_store)))"

definition demo_signed_delivery :: WebhookDeliveryInput where
  "demo_signed_delivery = demo_delivery\<lparr>webhookSecret := Some ''whsec''\<rparr>"

definition demo_empty_secret_delivery :: WebhookDeliveryInput where
  "demo_empty_secret_delivery = demo_delivery\<lparr>webhookSecret := Some []\<rparr>"

text \<open>An envelope as \<open>encrypt\<close> builds it with \<open>demo_crypto\<close> for the text \<^verbatim>\<open>{}\<close>.\<close>

definition demo_key :: string where
  "demo_key = ''0123456789abcdef0123456789abcdef''"

definition demo_iv :: Buffer where
  "demo_iv = [0, 1, 2, 3, 4, 5, 6, 7, 8, 9, 10, 11, 12, 13, 14, 15]"

definition demo_envelope :: string where
  "demo_envelope =
     ''000102030405060708090a0b0c0d0e0f:00000000000000000000000000000000:7b7d''"

text \<open>
  Three configuration rows of one merchant: one for another processor, then two for
  \<^verbatim>\<open>stripe\<close>, of which the first is disabled and has the larger priority number.
\<close>

definition demo_config_other :: processor_config where
  "demo_config_other =
     \<lparr>pc_id = ''cfg-0'', pc_merchantId = ''m-1'', pc_processor = ''razorpay'',
      pc_credentialsEncrypted = ''zz'', pc_priority = 1, pc_enabled = True,
      pc_testMode = True, pc_createdAt = 1000, pc_updatedAt = 1000\<rparr>"

definition demo_config_disabled :: processor_config where
  "demo_config_disabled =
     \<lparr>pc_id = ''cfg-1'', pc_merchantId = ''m-1'', pc_processor = ''stripe'',
      pc_credentialsEncrypted = demo_envelope,
      pc_priority = 2, pc_enabled = False, pc_testMode = False,
      pc_createdAt = 1000, pc_updatedAt = 1000\<rparr>"

definition demo_config_enabled :: processor_config where
  "demo_config_enabled =
     \<lparr>pc_id = ''cfg-2'', pc_merchantId = ''m-1'', pc_processor = ''stripe'',
      pc_credentialsEncrypted =
        ''000102030405060708090a0b0c0d0e0f:00000000000000000000000000000000:5b5d'',
      pc_priority = 1, pc_enabled = True, pc_testMode = True,
      pc_createdAt = 2000, pc_updatedAt = 2000\<rparr>"

definition demo_configs :: store where
  "demo_configs =
     \<lparr>merchants = [],
      processorConfigs = [demo_config_other, demo_config_disabled, demo_config_enabled],
      orders = [], transactions = [], webhookEvents = []\<rparr>"

definition demo_order :: order_row where
  "demo_order =
     \<lparr>o_id = ''ord-1'', o_merchantId = ''m-1'', o_externalId = ''ext-1'', o_amount = 2500,
      o_currency = ''USD'', o_status = ''pending'', o_processor = Some ''stripe'',
      o_processorOrderId = None, o_metadata = Some (JObj []), o_customerId = None,
      o_customerEmail = None, o_description = None, o_returnUrl = None,
      o_cancelUrl = None, o_workflowId = None, o_createdAt = 1000, o_updatedAt = 1000\<rparr>"

definition demo_order_store :: store where
  "demo_order_store =
     \<lparr>merchants = [], processorConfigs = [], orders = [demo_order], transactions = [],
      webhookEvents = []\<rparr>"

definition demo_capture :: UpdateOrderStatusInput where
  "demo_capture =
     \<lparr>orderId = ''ord-1'', status = ''captured'', processorOrderId = Some ''pi_1'',
      processorTransactionId = Some ''ch_1''\<rparr>"

definition demo_refund_no_id :: UpdateOrderStatusInput where
  "demo_refund_no_id =
     \<lparr>orderId = ''ord-1'', status = ''refunded'', processorOrderId = None,
      processorTransactionId = Some []\<rparr>"

section \<open>Auxiliary facts\<close>

subsection \<open>Queries\<close>

lemma select_limit_1_find:
  "select_limit_1 p rows = (case find p rows of None \<Rightarrow> [] | Some r \<Rightarrow> [r])"
  by (induction rows) (simp_all add: select_limit_1_def)

lemma find_map_key:
  assumes "\<And>r. p (f r) = p r"
  shows "find p (map f rows) = map_option f (find p rows)"
  using assms by (induction rows) simp_all

lemma set_order_id: "o_id (set_order v r) = o_id r"
  by (simp add: set_order_def)

lemma set_order_amount: "o_amount (set_order v r) = o_amount r"
  by (simp add: set_order_def)

lemma find_updated_order:
  "find (\<lambda>r. o_id r = k) (orders (update_orders v k' db)) =
     map_option (\<lambda>r. if o_id r = k' then set_order v r else r)
       (find (\<lambda>r. o_id r = k) (orders db))"
proof -
  have "o_id (if o_id r = k' then set_order v r else r) = k \<longleftrightarrow> o_id r = k" for r
    by (simp add: set_order_id)
  then show ?thesis
    unfolding update_orders_def
    by (simp add: find_map_key
        [where p = "\<lambda>r. o_id r = k" and f = "\<lambda>r. if o_id r = k' then set_order v r else r"])
qed

lemma next_attempt_find:
  "next_attempt db k =
     (case find (\<lambda>e. we_id e = k) (webhookEvents db) of
        None \<Rightarrow> 1
      | Some e \<Rightarrow> we_attempts e + 1)"
  by (simp add: next_attempt_def select_limit_1_find split: option.splits)

subsection \<open>Hexadecimal text and pieces\<close>

lemma hex_val_hex_digit: "n < 16 \<Longrightarrow> hex_val (hex_digit n) = Some n"
  by (simp add: hex_val_def hex_digit_def Let_def)

lemma hex_digit_not_colon: "n < 16 \<Longrightarrow> hex_digit n \<noteq> CHR '':''"
proof
  assume n: "n < 16" and "hex_digit n = CHR '':''"
  then have "(of_char (hex_digit n) :: nat) = of_char (CHR '':'')" by simp
  with n show False by (simp add: hex_digit_def split: if_splits)
qed

lemma unat_byte_div_16: "unat (b :: byte) div 16 < 16"
proof -
  have "unat b < 256" using unsigned_less [of b] by simp
  then show ?thesis by simp
qed

lemma Buffer_from_hex_toString_hex: "Buffer_from_hex (toString_hex buf) = buf"
  by (induction buf) (simp_all add: toString_hex_def hex_val_hex_digit unat_byte_div_16)

lemma colon_notin_toString_hex: "CHR '':'' \<notin> set (toString_hex buf)"
proof (induction buf)
  case Nil
  show ?case by (simp add: toString_hex_def)
next
  case (Cons b buf)
  have "hex_digit (unat b div 16) \<noteq> CHR '':''" "hex_digit (unat b mod 16) \<noteq> CHR '':''"
    by (simp_all add: hex_digit_not_colon unat_byte_div_16)
  with Cons show ?case by (auto simp: toString_hex_def)
qed

lemma hex_digit_lower: "n < 16 \<Longrightarrow> hex_digit n \<in> set ''0123456789abcdef''"
proof -
  assume "n < 16"
  then consider "n = 0" | "n = 1" | "n = 2" | "n = 3" | "n = 4" | "n = 5" | "n = 6"
    | "n = 7" | "n = 8" | "n = 9" | "n = 10" | "n = 11" | "n = 12" | "n = 13"
    | "n = 14" | "n = 15"
    by atomize_elim arith
  then show ?thesis
    by cases (simp_all add: hex_digit_def char_of_def bit_0)
qed

lemma toString_hex_lower: "set (toString_hex buf) \<subseteq> set ''0123456789abcdef''"
proof -
  define H where "H = set ''0123456789abcdef''"
  have "hex_digit (unat b div 16) \<in> H \<and> hex_digit (unat b mod 16) \<in> H" for b :: byte
    unfolding H_def by (simp only: hex_digit_lower unat_byte_div_16 simp_thms)
  then have "set (toString_hex buf) \<subseteq> H"
    by (induction buf) (simp_all add: toString_hex_def)
  then show ?thesis
    by (simp only: H_def)
qed

lemma js_split_no_sep: "sep \<notin> set xs \<Longrightarrow> js_split sep xs = [xs]"
  by (induction xs) auto

lemma js_split_append:
  "sep \<notin> set xs \<Longrightarrow> js_split sep (xs @ sep # ys) = xs # js_split sep ys"
  by (induction xs) auto


lemma js_split_three:
  assumes "sep \<notin> set a" "sep \<notin> set b" "sep \<notin> set c"
  shows "js_split sep (a @ sep # b @ sep # c) = [a, b, c]"
  using assms by (simp add: js_split_append js_split_no_sep)

subsection \<open>UTF-8 and UTF-16\<close>

text \<open>
  The decoder reads back the code points that the encoder wrote, so that decoding the
  UTF-8 octets of a string gives the string with \<^verbatim>\<open>U+FFFD\<close> in place of every unpaired
  surrogate (\<open>utf8_decode_encode\<close>).
\<close>

lemma utf8_octets_byte:
  assumes "scalar c" and "b \<in> set (utf8_octets c)"
  shows "b < 256"
proof -
  have "c < 0x110000"
    using assms(1) by (simp add: scalar_def)
  then have "c div 262144 < 5" "c div 4096 mod 64 < 64" "c div 64 mod 64 < 64" "c mod 64 < 64"
    by simp_all
  moreover have "c < 0x800 \<Longrightarrow> c div 64 < 32" "c < 0x10000 \<Longrightarrow> c div 4096 < 16"
    by simp_all
  ultimately show ?thesis
    using assms(2) by (auto simp: utf8_octets_def split: if_splits)
qed

lemma utf8_code_points_2:
  assumes "0x80 \<le> c" "c < 0x800"
  shows "utf8_code_points (utf8_octets c @ rest) = c # utf8_code_points rest"
proof -
  from assms have "c div 64 < 32" "2 \<le> c div 64" "c mod 64 < 64"
    by simp_all
  with assms show ?thesis
    by (simp add: utf8_octets_def continuation_def)
qed

lemma utf8_code_points_3:
  assumes 3: "0x800 \<le> c" "c < 0x10000" and nd: "\<not> (0xD800 \<le> c \<and> c \<le> 0xDFFF)"
  shows "utf8_code_points (utf8_octets c @ rest) = c # utf8_code_points rest"
proof -
  define q where "q = c div 64"
  define r where "r = c mod 64"
  define p where "p = q div 64"
  define m where "m = q mod 64"
  have c: "c = 64 * q + r" and r: "r < 64"
    by (simp_all add: q_def r_def)
  have q: "q = 64 * p + m" and m: "m < 64"
    by (simp_all add: p_def m_def)
  have p4096: "c div 4096 = p"
    by (simp add: p_def q_def div_mult2_eq [symmetric])
  from 3 c q r m have p: "p < 16"
    by linarith
  from 3 c q r m have e0: "p = 0 \<Longrightarrow> 32 \<le> m"
    by linarith
  from 3 nd c q r m have ed: "p = 13 \<Longrightarrow> m < 32"
    by linarith
  have v: "p * 4096 + m * 64 + r = c"
    using c q by simp
  have o: "utf8_octets c = [0xE0 + p, 0x80 + m, 0x80 + r]"
    using 3 by (simp add: utf8_octets_def p4096 [symmetric] q_def r_def m_def)
  show ?thesis
    using p m r e0 ed v by (auto simp: o continuation_def)
qed

lemma utf8_code_points_4:
  assumes 4: "0x10000 \<le> c" "c < 0x110000"
  shows "utf8_code_points (utf8_octets c @ rest) = c # utf8_code_points rest"
proof -
  define q where "q = c div 64"
  define r where "r = c mod 64"
  define p where "p = q div 64"
  define m where "m = q mod 64"
  define t where "t = p div 64"
  define n where "n = p mod 64"
  have c: "c = 64 * q + r" and r: "r < 64"
    by (simp_all add: q_def r_def)
  have q: "q = 64 * p + m" and m: "m < 64"
    by (simp_all add: p_def m_def)
  have p: "p = 64 * t + n" and n: "n < 64"
    by (simp_all add: t_def n_def)
  have d1: "c div 4096 = p"
    by (simp add: p_def q_def div_mult2_eq [symmetric])
  have d2: "c div 262144 = t"
    by (simp add: t_def p_def q_def div_mult2_eq [symmetric])
  from 4 c q p r m n have t: "t < 5"
    by linarith
  from 4 c q p r m n have f0: "t = 0 \<Longrightarrow> 16 \<le> n"
    by linarith
  from 4 c q p r m n have f4: "t = 4 \<Longrightarrow> n < 16"
    by linarith
  have v: "t * 262144 + n * 4096 + m * 64 + r = c"
    using c q p by simp
  have o: "utf8_octets c = [0xF0 + t, 0x80 + n, 0x80 + m, 0x80 + r]"
    using 4 by (simp add: utf8_octets_def d1 [symmetric] d2 [symmetric] q_def r_def m_def n_def)
  show ?thesis
    using t n m r f0 f4 v by (auto simp: o continuation_def)
qed

lemma utf8_code_points_octets:
  assumes "scalar c"
  shows "utf8_code_points (utf8_octets c @ rest) = c # utf8_code_points rest"
proof -
  consider "c < 0x80" | "0x80 \<le> c" "c < 0x800" | "0x800 \<le> c" "c < 0x10000"
    | "0x10000 \<le> c" "c < 0x110000"
    using assms unfolding scalar_def by atomize_elim arith
  then show ?thesis
  proof cases
    case 1
    then show ?thesis
      by (simp add: utf8_octets_def)
  next
    case 2
    then show ?thesis
      by (rule utf8_code_points_2)
  next
    case 3
    moreover have "\<not> (0xD800 \<le> c \<and> c \<le> 0xDFFF)"
      using assms by (simp add: scalar_def)
    ultimately show ?thesis
      by (rule utf8_code_points_3)
  next
    case 4
    then show ?thesis
      by (rule utf8_code_points_4)
  qed
qed

lemma unat_unit: "unat (u :: 16 word) < 65536"
  using unsigned_less [of u] by simp

lemma pair_scalar:
  assumes "is_high u" and "is_low l"
  shows "scalar (0x10000 + (unat u - 0xD800) * 0x400 + (unat l - 0xDC00))"
proof -
  define a where "a = unat u - 0xD800"
  define b where "b = unat l - 0xDC00"
  have "a \<le> 1023"
    using assms(1) unfolding is_high_def a_def by linarith
  then have "a * 0x400 \<le> 1023 * 0x400"
    by (rule mult_le_mono1)
  moreover have "b \<le> 1023"
    using assms(2) unfolding is_low_def b_def by linarith
  ultimately have "0x10000 + a * 0x400 + b < 0x110000" "0xDFFF < 0x10000 + a * 0x400 + b"
    by linarith+
  then show ?thesis
    unfolding scalar_def a_def b_def by linarith
qed

lemma unit_scalar:
  assumes "\<not> is_high u" and "\<not> is_low u"
  shows "scalar (unat u)"
proof -
  have "unat u < 65536" by (rule unat_unit)
  with assms show ?thesis
    unfolding scalar_def is_high_def is_low_def by linarith
qed

lemma replacement_scalar: "scalar 0xFFFD"
  by (simp add: scalar_def)

lemma code_points_scalar: "\<forall>c \<in> set (code_points s). scalar c"
proof (induction s rule: code_points.induct)
  case 1
  show ?case by simp
next
  case (2 u us)
  show ?case
  proof (cases "is_high u")
    case True
    show ?thesis
    proof (cases us)
      case Nil
      with True show ?thesis by (simp add: replacement_scalar)
    next
      case (Cons l rest)
      show ?thesis
      proof (cases "is_low l")
        case low: True
        with "2.IH"(1) [OF True Cons low] True Cons pair_scalar [OF True low]
        show ?thesis by simp
      next
        case False
        with "2.IH"(2) [OF True Cons False] True Cons show ?thesis
          by (simp add: replacement_scalar)
      qed
    qed
  next
    case False
    show ?thesis
    proof (cases "is_low u")
      case True
      with "2.IH"(3) [OF False True] False show ?thesis
        by (simp add: replacement_scalar)
    next
      case low: False
      with "2.IH"(4) [OF False low] False unit_scalar [OF False low] show ?thesis
        by simp
    qed
  qed
qed

lemma utf16_units_pair:
  assumes "is_high u" and "is_low l"
  shows "utf16_units (0x10000 + (unat u - 0xD800) * 0x400 + (unat l - 0xDC00)) = [u, l]"
proof -
  define a where "a = unat u - 0xD800"
  define b where "b = unat l - 0xDC00"
  have u: "unat u = 0xD800 + a"
    using assms(1) unfolding is_high_def a_def by linarith
  have l: "unat l = 0xDC00 + b" and b: "b < 0x400"
    using assms(2) unfolding is_low_def b_def by linarith+
  have "(a * 0x400 + b) div 0x400 = a" "(a * 0x400 + b) mod 0x400 = b"
    using b by simp_all
  then have "utf16_units (0x10000 + a * 0x400 + b) = [of_nat (unat u), of_nat (unat l)]"
    by (simp add: utf16_units_def u l)
  then show ?thesis
    by (simp add: a_def b_def)
qed

lemma utf16_units_single: "utf16_units (unat (u :: 16 word)) = [u]"
  using unat_unit [of u] by (simp add: utf16_units_def)

lemma utf16_units_replacement: "utf16_units 0xFFFD = [0xFFFD]"
  by (simp add: utf16_units_def)

lemma units_code_points:
  "concat (map utf16_units (code_points s)) = toWellFormed s"
proof (induction s rule: code_points.induct)
  case 1
  show ?case by simp
next
  case (2 u us)
  show ?case
  proof (cases "is_high u")
    case True
    show ?thesis
    proof (cases us)
      case Nil
      with True show ?thesis by (simp add: utf16_units_replacement)
    next
      case (Cons l rest)
      show ?thesis
      proof (cases "is_low l")
        case low: True
        from "2.IH"(1) [OF True Cons low] True Cons low utf16_units_pair [OF True low]
        show ?thesis by simp
      next
        case nlow: False
        from "2.IH"(2) [OF True Cons nlow] True Cons nlow
        show ?thesis by (simp add: utf16_units_replacement)
      qed
    qed
  next
    case False
    show ?thesis
    proof (cases "is_low u")
      case True
      from "2.IH"(3) [OF False True] False True
      show ?thesis by (simp add: utf16_units_replacement)
    next
      case nlow: False
      from "2.IH"(4) [OF False nlow] False nlow
      show ?thesis by (simp add: utf16_units_single)
    qed
  qed
qed

lemma toWellFormed_well_formed: "well_formed s \<Longrightarrow> toWellFormed s = s"
proof (induction s rule: toWellFormed.induct)
  case 1
  show ?case by simp
next
  case (2 u us)
  show ?case
  proof (cases "is_high u")
    case True
    with "2.prems" obtain l rest where us: "us = l # rest" and low: "is_low l"
      and wf: "well_formed rest"
      by (auto split: list.splits)
    from "2.IH"(1) [OF True us low wf] True us low
    show ?thesis by simp
  next
    case False
    with "2.prems" have low: "\<not> is_low u" and wf: "well_formed us"
      by simp_all
    from "2.IH"(4) [OF False low wf] False low show ?thesis
      by simp
  qed
qed

lemma utf8_code_points_concat:
  "\<forall>c \<in> set cs. scalar c \<Longrightarrow> utf8_code_points (concat (map utf8_octets cs)) = cs"
  by (induction cs) (simp_all add: utf8_code_points_octets)

lemma unat_of_nat_octets:
  assumes "\<forall>c \<in> set cs. scalar c"
  shows "map unat (map of_nat (concat (map utf8_octets cs)) :: byte list)
      = concat (map utf8_octets cs)"
proof -
  have "\<forall>b \<in> set (concat (map utf8_octets cs)). b < 256"
    using assms utf8_octets_byte by auto
  then have "map (\<lambda>b. unat (of_nat b :: byte)) (concat (map utf8_octets cs))
      = concat (map utf8_octets cs)"
    by (intro map_idI) (auto simp: unat_of_nat)
  then show ?thesis
    by (simp add: o_def)
qed

lemma utf8_decode_encode: "utf8_decode (utf8_encode s) = toWellFormed s"
  by (simp only: utf8_decode_def utf8_encode_def
        unat_of_nat_octets [OF code_points_scalar]
        utf8_code_points_concat [OF code_points_scalar] units_code_points)

subsection \<open>The example values, evaluated\<close>

lemma demo_failed_once_eq:
  "demo_failed_once =
     demo_store\<lparr>webhookEvents :=
       [demo_event\<lparr>we_status := ''pending'', we_attempts := 1,
                    we_lastAttemptAt := Some 1700000000001,
                    we_nextRetryAt := Some 1700000060002\<rparr>]\<rparr>"
  by (simp add: demo_failed_once_def deliverWebhook_def Let_def update_webhookEvents_def
        set_webhook_event_def next_attempt_find response_ok_def getRetryDelay_def
        new_Date_def demo_store_def demo_delivery_def demo_event_def demo_runtime_def)

lemma demo_failed_4_eq:
  "demo_failed_4 =
     demo_store\<lparr>webhookEvents :=
       [demo_event\<lparr>we_status := ''pending'', we_attempts := 4,
                    we_lastAttemptAt := Some 1700000420007,
                    we_nextRetryAt := Some 1700000900008\<rparr>]\<rparr>"
proof -
  note eval =
    demo_throw_def deliverWebhook_def Let_def update_webhookEvents_def
    set_webhook_event_def next_attempt_find getRetryDelay_def
    new_Date_def demo_store_def demo_delivery_def demo_event_def demo_runtime_def
  have s1: "demo_throw 1700000000000 demo_store =
      demo_store\<lparr>webhookEvents :=
       [demo_event\<lparr>we_status := ''pending'', we_attempts := 1,
                    we_lastAttemptAt := Some 1700000000001,
                    we_nextRetryAt := Some 1700000060002\<rparr>]\<rparr>"
    by (simp add: eval)
  have s2: "demo_throw 1700000060002 (demo_store\<lparr>webhookEvents :=
       [demo_event\<lparr>we_status := ''pending'', we_attempts := 1,
                    we_lastAttemptAt := Some 1700000000001,
                    we_nextRetryAt := Some 1700000060002\<rparr>]\<rparr>) =
      demo_store\<lparr>webhookEvents :=
       [demo_event\<lparr>we_status := ''pending'', we_attempts := 2,
                    we_lastAttemptAt := Some 1700000060003,
                    we_nextRetryAt := Some 1700000180004\<rparr>]\<rparr>"
    by (simp add: eval)
  have s3: "demo_throw 1700000180004 (demo_store\<lparr>webhookEvents :=
       [demo_event\<lparr>we_status := ''pending'', we_attempts := 2,
                    we_lastAttemptAt := Some 1700000060003,
                    we_nextRetryAt := Some 1700000180004\<rparr>]\<rparr>) =
      demo_store\<lparr>webhookEvents :=
       [demo_event\<lparr>we_status := ''pending'', we_attempts := 3,
                    we_lastAttemptAt := Some 1700000180005,
                    we_nextRetryAt := Some 1700000420006\<rparr>]\<rparr>"
    by (simp add: eval)
  have s4: "demo_throw 1700000420006 (demo_store\<lparr>webhookEvents :=
       [demo_event\<lparr>we_status := ''pending'', we_attempts := 3,
                    we_lastAttemptAt := Some 1700000180005,
                    we_nextRetryAt := Some 1700000420006\<rparr>]\<rparr>) =
      demo_store\<lparr>webhookEvents :=
       [demo_event\<lparr>we_status := ''pending'', we_attempts := 4,
                    we_lastAttemptAt := Some 1700000420007,
                    we_nextRetryAt := Some 1700000900008\<rparr>]\<rparr>"
    by (simp add: eval)
  show ?thesis
    by (simp only: demo_failed_4_def s1 s2 s3 s4)
qed

lemma demo_timestamp: "String_of_int 1700000000000 = ''1700000000000''"
  by (simp add: String_of_int_def digits.simps char_of_def bit_0)

lemma toString_hex_demo_iv: "toString_hex demo_iv = ''000102030405060708090a0b0c0d0e0f''"
  by (simp add: demo_iv_def toString_hex_def hex_digit_def char_of_def bit_0)

lemma toString_hex_demo_tag: "toString_hex demo_tag = ''00000000000000000000000000000000''"
  by (simp add: demo_tag_def toString_hex_def hex_digit_def char_of_def bit_0)

lemma utf16_braces: "utf16 ''{}'' = [0x7B, 0x7D]"
  by (simp add: utf16_def)

lemma utf8_encode_braces: "utf8_encode [0x7B, 0x7D] = [0x7B, 0x7D]"
  by (simp add: utf8_encode_def is_high_def is_low_def utf8_octets_def)

lemma utf8_decode_braces: "utf8_decode [0x7B, 0x7D] = [0x7B, 0x7D]"
  by (simp add: utf8_decode_def utf16_units_def)

lemma toString_hex_braces: "toString_hex [0x7B, 0x7D] = ''7b7d''"
  by (simp add: toString_hex_def hex_digit_def char_of_def bit_0)

lemma aes_256_gcm_demo: "aes_256_gcm demo_crypto"
proof -
  have 1: "length (createHash_sha256 demo_crypto s) = 32" for s
    by (simp add: demo_crypto_def)
  have 2: "cipher_gcm demo_crypto key iv octets = (toString_hex octets, demo_tag)"
    for key iv octets
    by (simp add: demo_crypto_def)
  have 3: "length iv = IV_LENGTH \<Longrightarrow> decipher_init demo_crypto key iv demo_tag = None"
    for key iv
    by (auto simp: demo_crypto_def IV_LENGTH_def demo_tag_def)
  have 4: "decipher_gcm demo_crypto key iv demo_tag (toString_hex octets) = Inr octets"
    for key iv octets
    by (simp add: demo_crypto_def Buffer_from_hex_toString_hex)
  show ?thesis
    unfolding aes_256_gcm_def
    by (simp add: 1 2 3 4 colon_notin_toString_hex)
qed

lemma decrypt_demo_envelope: "decrypt demo_crypto demo_key demo_envelope = Inr (utf16 ''{}'')"
  by (simp add: decrypt_def demo_envelope_def hex_val_def demo_crypto_def Let_def
        demo_tag_def utf8_decode_braces utf16_braces)

lemma utf8_encode_surrogate: "utf8_encode [0xD800] = [0xEF, 0xBF, 0xBD]"
  by (simp add: utf8_encode_def is_high_def utf8_octets_def)

lemma toString_hex_replacement: "toString_hex [0xEF, 0xBF, 0xBD] = ''efbfbd''"
  by (simp add: toString_hex_def hex_digit_def char_of_def bit_0)

lemma utf8_decode_replacement: "utf8_decode [0xEF, 0xBF, 0xBD] = [0xFFFD]"
  by (simp add: utf8_decode_def utf16_units_def continuation_def)

lemma encrypt_surrogate:
  "encrypt demo_crypto demo_key demo_iv [0xD800]
     = ''000102030405060708090a0b0c0d0e0f:00000000000000000000000000000000:efbfbd''"
  by (simp add: encrypt_def demo_crypto_def utf8_encode_surrogate toString_hex_replacement
        toString_hex_demo_iv toString_hex_demo_tag)

lemma decrypt_replacement:
  "decrypt demo_crypto demo_key
     ''000102030405060708090a0b0c0d0e0f:00000000000000000000000000000000:efbfbd''
       = Inr [0xFFFD]"
  by (simp add: decrypt_def hex_val_def demo_crypto_def Let_def demo_tag_def
        utf8_decode_replacement)

lemma createHmac_sha256_demo:
  "toString_hex (createHmac_sha256 demo_crypto ''whsec'' ''1700000000000.{}'')
     = ''7768736563313730303030303030303030302e7b7d''"
  by (simp add: demo_crypto_def toString_hex_def hex_digit_def char_of_def bit_0)

section \<open>Webhook dispatcher\<close>

text \<open>
  C4. For every attempt number from 1 on, the retry delay is
  \<open>min (60000 * 2 ^ (attempt - 1)) 86400000\<close> milliseconds, a whole number; the delay is
  60000 for attempt 1, 960000 for attempt 5 and 86400000 for attempt 30. The delay is a
  function of the attempt number alone.
\<close>

theorem getRetryDelay_backoff:
  "(1 \<le> attempt \<longrightarrow>
      getRetryDelay attempt = of_nat (min (60000 * 2 ^ nat (attempt - 1)) 86400000))
   \<and> getRetryDelay 1 = 60000 \<and> getRetryDelay 5 = 960000 \<and> getRetryDelay 30 = 86400000"
proof (intro conjI impI)
  assume "1 \<le> attempt"
  define k where "k = nat (attempt - 1)"
  have p: "(2::rat) powi (attempt - 1) = 2 ^ k"
    using \<open>1 \<le> attempt\<close> by (simp add: power_int_def k_def)
  have "min (60000 * 2 ^ k) (86400000 :: rat) = of_nat (min (60000 * 2 ^ k) 86400000)"
    by (simp only: of_nat_min of_nat_mult of_nat_power of_nat_numeral)
  then show "getRetryDelay attempt = of_nat (min (60000 * 2 ^ nat (attempt - 1)) 86400000)"
    by (simp add: getRetryDelay_def p k_def)
next
  show "getRetryDelay 1 = 60000"
    by (simp add: getRetryDelay_def)
next
  show "getRetryDelay 5 = 960000"
    by (simp add: getRetryDelay_def)
next
  show "getRetryDelay 30 = 86400000"
    by (simp add: getRetryDelay_def)
qed

theorem getRetryDelay_backoff_witness:
  "(1::int) \<le> 7 \<and> getRetryDelay 7 = 3840000"
  using getRetryDelay_backoff [of 7] by simp

text \<open>
  C3. When the POST is answered with a status code outside 200..299, whatever the stored
  attempt count, every event with the given id gets status \<^verbatim>\<open>pending\<close>, the new attempt
  count, a last-attempt time and the next-retry time \<open>now + getRetryDelay n\<close>, never
  status \<^verbatim>\<open>failed\<close>; all else in the store is unchanged. The result has
  \<open>success = False\<close>, the status code, the new attempt count \<open>n\<close> (the stored count
  plus one) and the message \<^verbatim>\<open>HTTP <code>\<close>.
\<close>

theorem deliverWebhook_non_2xx:
  fixes lib rt input db
  defines "n \<equiv> next_attempt db (webhookEventId input)"
  assumes "fetch rt (webhook_request lib rt input) = Response code"
    and "\<not> response_ok code"
  shows "deliverWebhook lib rt input db =
     (\<lparr>success = False, statusCode = Some code, attempts = n, deliveredAt = None,
       errorMessage = Some (''HTTP '' @ digits code)\<rparr>,
      db\<lparr>webhookEvents :=
           map (\<lambda>r. if we_id r = webhookEventId input
                     then r\<lparr>we_status := ''pending'', we_attempts := n,
                            we_lastAttemptAt := Some (clock rt 1),
                            we_nextRetryAt :=
                              Some (new_Date (of_int (clock rt 2) + getRetryDelay n))\<rparr>
                     else r)
               (webhookEvents db)\<rparr>,
      [webhook_request lib rt input])
   \<and> n = (case find (\<lambda>e. we_id e = webhookEventId input) (webhookEvents db) of
            None \<Rightarrow> 1
          | Some e \<Rightarrow> we_attempts e + 1)"
  using assms
  by (simp add: deliverWebhook_def Let_def update_webhookEvents_def
        set_webhook_event_def next_attempt_find)

theorem deliverWebhook_non_2xx_witness:
  "fetch (demo_runtime (Response 500) 1700000000000)
     (webhook_request demo_crypto (demo_runtime (Response 500) 1700000000000) demo_delivery)
     = Response 500
   \<and> \<not> response_ok 500
   \<and> deliverWebhook demo_crypto (demo_runtime (Response 500) 1700000000000) demo_delivery
        (demo_store\<lparr>webhookEvents := [demo_event\<lparr>we_attempts := 41\<rparr>]\<rparr>)
     = (\<lparr>success = False, statusCode = Some 500, attempts = 42, deliveredAt = None,
         errorMessage = Some ''HTTP 500''\<rparr>,
        demo_store\<lparr>webhookEvents :=
          [demo_event\<lparr>we_status := ''pending'', we_attempts := 42,
                       we_lastAttemptAt := Some 1700000000001,
                       we_nextRetryAt := Some 1700086400002\<rparr>]\<rparr>,
        [webhook_request demo_crypto (demo_runtime (Response 500) 1700000000000)
           demo_delivery])"
proof -
  let ?rt = "demo_runtime (Response 500) 1700000000000"
  let ?db = "demo_store\<lparr>webhookEvents := [demo_event\<lparr>we_attempts := 41\<rparr>]\<rparr>"
  have h1: "fetch ?rt (webhook_request demo_crypto ?rt demo_delivery) = Response 500"
    by (simp add: demo_runtime_def)
  have h2: "\<not> response_ok 500"
    by (simp add: response_ok_def)
  have d: "digits 500 = ''500''"
    by (simp add: digits.simps char_of_def bit_0)
  have e: "webhookEventId demo_delivery = ''evt-1''"
    by (simp add: demo_delivery_def)
  have n: "next_attempt ?db ''evt-1'' = 42"
    by (simp add: next_attempt_find demo_event_def)
  have c: "clock ?rt k = 1700000000000 + int k" for k
    by (simp add: demo_runtime_def)
  have g: "new_Date (of_int (1700000000000 + int 2) + getRetryDelay 42) = 1700086400002"
    by (simp add: getRetryDelay_def new_Date_def)
  from deliverWebhook_non_2xx [OF h1 h2, of ?db, THEN conjunct1]
  have "deliverWebhook demo_crypto ?rt demo_delivery ?db
     = (\<lparr>success = False, statusCode = Some 500, attempts = 42, deliveredAt = None,
         errorMessage = Some ''HTTP 500''\<rparr>,
        ?db\<lparr>webhookEvents :=
          map (\<lambda>r. if we_id r = ''evt-1''
                    then r\<lparr>we_status := ''pending'', we_attempts := 42,
                           we_lastAttemptAt := Some 1700000000001,
                           we_nextRetryAt := Some 1700086400002\<rparr>
                    else r)
              (webhookEvents ?db)\<rparr>,
        [webhook_request demo_crypto ?rt demo_delivery])"
    by (simp only: e n c g d) simp
  then have "deliverWebhook demo_crypto ?rt demo_delivery ?db
     = (\<lparr>success = False, statusCode = Some 500, attempts = 42, deliveredAt = None,
         errorMessage = Some ''HTTP 500''\<rparr>,
        demo_store\<lparr>webhookEvents :=
          [demo_event\<lparr>we_status := ''pending'', we_attempts := 42,
                       we_lastAttemptAt := Some 1700000000001,
                       we_nextRetryAt := Some 1700086400002\<rparr>]\<rparr>,
        [webhook_request demo_crypto ?rt demo_delivery])"
    by (simp add: demo_event_def)
  with h1 h2 show ?thesis
    by (simp only: simp_thms)
qed

text \<open>
  C1 (as amended). When the POST is answered with a status code in 200..299, every event
  with the given id gets status \<^verbatim>\<open>delivered\<close>, the new attempt count, a last-attempt
  time and a delivered time; its next-retry time is not written and keeps the value it
  had (the update passes \<^verbatim>\<open>undefined\<close> for it), so it is null only if it was null
  before. All else in the store is unchanged. The result has \<open>success = True\<close>, the
  status code, the new attempt count \<open>n\<close> (the stored count plus one) and a delivered
  time.
\<close>

theorem deliverWebhook_2xx:
  fixes lib rt input db
  defines "n \<equiv> next_attempt db (webhookEventId input)"
  assumes "fetch rt (webhook_request lib rt input) = Response code"
    and "response_ok code"
  shows "deliverWebhook lib rt input db =
     (\<lparr>success = True, statusCode = Some code, attempts = n,
       deliveredAt = Some (clock rt 3), errorMessage = None\<rparr>,
      db\<lparr>webhookEvents :=
           map (\<lambda>r. if we_id r = webhookEventId input
                     then r\<lparr>we_status := ''delivered'', we_attempts := n,
                            we_lastAttemptAt := Some (clock rt 1),
                            we_deliveredAt := Some (clock rt 2)\<rparr>
                     else r)
               (webhookEvents db)\<rparr>,
      [webhook_request lib rt input])
   \<and> map we_nextRetryAt (webhookEvents (fst (snd (deliverWebhook lib rt input db))))
       = map we_nextRetryAt (webhookEvents db)
   \<and> n = (case find (\<lambda>e. we_id e = webhookEventId input) (webhookEvents db) of
            None \<Rightarrow> 1
          | Some e \<Rightarrow> we_attempts e + 1)"
  using assms
  by (simp add: deliverWebhook_def Let_def update_webhookEvents_def
        set_webhook_event_def next_attempt_find o_def if_distrib cong: if_cong)

theorem deliverWebhook_2xx_witness:
  "fetch (demo_runtime (Response 200) 1700000060002)
     (webhook_request demo_crypto (demo_runtime (Response 200) 1700000060002) demo_delivery)
     = Response 200
   \<and> response_ok 200
   \<and> deliverWebhook demo_crypto (demo_runtime (Response 200) 1700000060002)
            demo_delivery demo_failed_once
     = (\<lparr>success = True, statusCode = Some 200, attempts = 2,
         deliveredAt = Some 1700000060005, errorMessage = None\<rparr>,
        demo_store\<lparr>webhookEvents :=
          [demo_event\<lparr>we_status := ''delivered'', we_attempts := 2,
                       we_lastAttemptAt := Some 1700000060003,
                       we_nextRetryAt := Some 1700000060002,
                       we_deliveredAt := Some 1700000060004\<rparr>]\<rparr>,
        [webhook_request demo_crypto (demo_runtime (Response 200) 1700000060002)
           demo_delivery])"
proof -
  have h1: "fetch (demo_runtime (Response 200) 1700000060002)
     (webhook_request demo_crypto (demo_runtime (Response 200) 1700000060002) demo_delivery)
     = Response 200"
    by (simp add: demo_runtime_def)
  have h2: "response_ok 200"
    by (simp add: response_ok_def)
  have n: "next_attempt demo_failed_once ''evt-1'' = 2"
    by (simp add: next_attempt_find demo_failed_once_eq demo_store_def demo_event_def)
  have c: "clock (demo_runtime (Response 200) 1700000060002) k = 1700000060002 + int k" for k
    by (simp add: demo_runtime_def)
  have e: "webhookEventId demo_delivery = ''evt-1''"
    by (simp add: demo_delivery_def)
  from deliverWebhook_2xx [OF h1 h2, of demo_failed_once, THEN conjunct1]
  have "deliverWebhook demo_crypto (demo_runtime (Response 200) 1700000060002)
            demo_delivery demo_failed_once
     = (\<lparr>success = True, statusCode = Some 200, attempts = 2,
         deliveredAt = Some 1700000060005, errorMessage = None\<rparr>,
        demo_failed_once\<lparr>webhookEvents :=
           map (\<lambda>r. if we_id r = ''evt-1''
                     then r\<lparr>we_status := ''delivered'', we_attempts := 2,
                            we_lastAttemptAt := Some 1700000060003,
                            we_deliveredAt := Some 1700000060004\<rparr>
                     else r)
               (webhookEvents demo_failed_once)\<rparr>,
        [webhook_request demo_crypto (demo_runtime (Response 200) 1700000060002)
           demo_delivery])"
    by (simp add: n c e)
  then show ?thesis
    by (simp add: h1 h2 demo_failed_once_eq demo_store_def demo_event_def)
qed

text \<open>
  C1 as the specification states it does not hold: an event whose first attempt was
  answered with HTTP 500 (\<open>demo_failed_once\<close>) and whose second attempt is answered
  with HTTP 200 ends with status \<^verbatim>\<open>delivered\<close> and still carries the retry time that
  the first attempt scheduled.
\<close>

theorem deliverWebhook_2xx_nextRetryAt_counterexample:
  "success (fst (deliverWebhook demo_crypto (demo_runtime (Response 200) 1700000060002)
                   demo_delivery demo_failed_once))
   \<and> map we_status (webhookEvents (fst (snd (deliverWebhook demo_crypto
          (demo_runtime (Response 200) 1700000060002) demo_delivery demo_failed_once))))
       = [''delivered'']
   \<and> map we_nextRetryAt (webhookEvents (fst (snd (deliverWebhook demo_crypto
          (demo_runtime (Response 200) 1700000060002) demo_delivery demo_failed_once))))
       = [Some 1700000060002]"
  by (simp add: demo_failed_once_eq deliverWebhook_def Let_def update_webhookEvents_def
        set_webhook_event_def next_attempt_find response_ok_def
        demo_store_def demo_delivery_def demo_event_def demo_runtime_def)

text \<open>
  C2 (as amended). When \<^verbatim>\<open>fetch\<close> throws, \<open>deliverWebhook\<close> returns a result and throws
  nothing. With \<open>n\<close> the new attempt number (the stored count plus one): if \<open>5 \<le> n\<close>,
  every event with the given id gets status \<^verbatim>\<open>failed\<close>, the count \<open>n\<close> and a
  last-attempt time, and its next-retry time is not written and keeps the value it had;
  otherwise it gets status \<^verbatim>\<open>pending\<close>, the count, a last-attempt time and the next-retry
  time \<open>now + getRetryDelay n\<close>. In both cases the result has \<open>success = False\<close>, the
  count \<open>n\<close>, no status code, and as message the message of the thrown error
  (\<^verbatim>\<open>Unknown error\<close> if the thrown value is no \<^verbatim>\<open>Error\<close>).
\<close>

theorem deliverWebhook_throws:
  fixes lib rt input db
  defines "n \<equiv> next_attempt db (webhookEventId input)"
  assumes "fetch rt (webhook_request lib rt input) = Throws error"
  shows "deliverWebhook lib rt input db =
     (\<lparr>success = False, statusCode = None, attempts = n, deliveredAt = None,
       errorMessage =
         Some (case error of Error m \<Rightarrow> m | NotAnError \<Rightarrow> ''Unknown error'')\<rparr>,
      db\<lparr>webhookEvents :=
           map (\<lambda>r. if we_id r = webhookEventId input
                     then (if 5 \<le> n
                           then r\<lparr>we_status := ''failed'', we_attempts := n,
                                  we_lastAttemptAt := Some (clock rt 1)\<rparr>
                           else r\<lparr>we_status := ''pending'', we_attempts := n,
                                  we_lastAttemptAt := Some (clock rt 1),
                                  we_nextRetryAt :=
                                    Some (new_Date (of_int (clock rt 2) + getRetryDelay n))\<rparr>)
                     else r)
               (webhookEvents db)\<rparr>,
      [webhook_request lib rt input])
   \<and> n = (case find (\<lambda>e. we_id e = webhookEventId input) (webhookEvents db) of
            None \<Rightarrow> 1
          | Some e \<Rightarrow> we_attempts e + 1)"
  using assms
  by (simp add: deliverWebhook_def Let_def update_webhookEvents_def
        set_webhook_event_def next_attempt_find)

theorem deliverWebhook_throws_witness:
  "fetch (demo_runtime (Throws (Error ''fetch failed'')) 1700000900008)
     (webhook_request demo_crypto
        (demo_runtime (Throws (Error ''fetch failed'')) 1700000900008) demo_delivery)
     = Throws (Error ''fetch failed'')
   \<and> deliverWebhook demo_crypto
        (demo_runtime (Throws (Error ''fetch failed'')) 1700000900008) demo_delivery
        demo_failed_4
     = (\<lparr>success = False, statusCode = None, attempts = 5, deliveredAt = None,
         errorMessage = Some ''fetch failed''\<rparr>,
        demo_store\<lparr>webhookEvents :=
          [demo_event\<lparr>we_status := ''failed'', we_attempts := 5,
                       we_lastAttemptAt := Some 1700000900009,
                       we_nextRetryAt := Some 1700000900008\<rparr>]\<rparr>,
        [webhook_request demo_crypto
           (demo_runtime (Throws (Error ''fetch failed'')) 1700000900008) demo_delivery])
   \<and> deliverWebhook demo_crypto
        (demo_runtime (Throws (Error ''fetch failed'')) 1700000000000) demo_delivery
        demo_store
     = (\<lparr>success = False, statusCode = None, attempts = 1, deliveredAt = None,
         errorMessage = Some ''fetch failed''\<rparr>,
        demo_store\<lparr>webhookEvents :=
          [demo_event\<lparr>we_status := ''pending'', we_attempts := 1,
                       we_lastAttemptAt := Some 1700000000001,
                       we_nextRetryAt := Some 1700000060002\<rparr>]\<rparr>,
        [webhook_request demo_crypto
           (demo_runtime (Throws (Error ''fetch failed'')) 1700000000000) demo_delivery])"
proof -
  let ?rt5 = "demo_runtime (Throws (Error ''fetch failed'')) 1700000900008"
  let ?rt1 = "demo_runtime (Throws (Error ''fetch failed'')) 1700000000000"
  have h5: "fetch ?rt5 (webhook_request demo_crypto ?rt5 demo_delivery)
      = Throws (Error ''fetch failed'')"
    by (simp add: demo_runtime_def)
  have h1: "fetch ?rt1 (webhook_request demo_crypto ?rt1 demo_delivery)
      = Throws (Error ''fetch failed'')"
    by (simp add: demo_runtime_def)
  have e: "webhookEventId demo_delivery = ''evt-1''"
    by (simp add: demo_delivery_def)
  have n5: "next_attempt demo_failed_4 ''evt-1'' = 5"
    by (simp add: next_attempt_find demo_failed_4_eq demo_store_def demo_event_def)
  have n1: "next_attempt demo_store ''evt-1'' = 1"
    by (simp add: next_attempt_find demo_store_def demo_event_def)
  have c5: "clock ?rt5 k = 1700000900008 + int k" for k
    by (simp add: demo_runtime_def)
  have c1: "clock ?rt1 k = 1700000000000 + int k" for k
    by (simp add: demo_runtime_def)
  from deliverWebhook_throws [OF h5, of demo_failed_4, THEN conjunct1]
  have "deliverWebhook demo_crypto ?rt5 demo_delivery demo_failed_4
     = (\<lparr>success = False, statusCode = None, attempts = 5, deliveredAt = None,
         errorMessage = Some ''fetch failed''\<rparr>,
        demo_failed_4\<lparr>webhookEvents :=
          map (\<lambda>r. if we_id r = ''evt-1''
                    then r\<lparr>we_status := ''failed'', we_attempts := 5,
                           we_lastAttemptAt := Some 1700000900009\<rparr>
                    else r)
              (webhookEvents demo_failed_4)\<rparr>,
        [webhook_request demo_crypto ?rt5 demo_delivery])"
    by (simp add: e n5 c5)
  then have r5: "deliverWebhook demo_crypto ?rt5 demo_delivery demo_failed_4
     = (\<lparr>success = False, statusCode = None, attempts = 5, deliveredAt = None,
         errorMessage = Some ''fetch failed''\<rparr>,
        demo_store\<lparr>webhookEvents :=
          [demo_event\<lparr>we_status := ''failed'', we_attempts := 5,
                       we_lastAttemptAt := Some 1700000900009,
                       we_nextRetryAt := Some 1700000900008\<rparr>]\<rparr>,
        [webhook_request demo_crypto ?rt5 demo_delivery])"
    by (simp add: demo_failed_4_eq demo_store_def demo_event_def)
  from deliverWebhook_throws [OF h1, of demo_store, THEN conjunct1]
  have "deliverWebhook demo_crypto ?rt1 demo_delivery demo_store
     = (\<lparr>success = False, statusCode = None, attempts = 1, deliveredAt = None,
         errorMessage = Some ''fetch failed''\<rparr>,
        demo_store\<lparr>webhookEvents :=
          map (\<lambda>r. if we_id r = ''evt-1''
                    then r\<lparr>we_status := ''pending'', we_attempts := 1,
                           we_lastAttemptAt := Some 1700000000001,
                           we_nextRetryAt := Some 1700000060002\<rparr>
                    else r)
              (webhookEvents demo_store)\<rparr>,
        [webhook_request demo_crypto ?rt1 demo_delivery])"
    by (simp add: e n1 c1 getRetryDelay_def new_Date_def)
  then have r1: "deliverWebhook demo_crypto ?rt1 demo_delivery demo_store
     = (\<lparr>success = False, statusCode = None, attempts = 1, deliveredAt = None,
         errorMessage = Some ''fetch failed''\<rparr>,
        demo_store\<lparr>webhookEvents :=
          [demo_event\<lparr>we_status := ''pending'', we_attempts := 1,
                       we_lastAttemptAt := Some 1700000000001,
                       we_nextRetryAt := Some 1700000060002\<rparr>]\<rparr>,
        [webhook_request demo_crypto ?rt1 demo_delivery])"
    by (simp add: demo_store_def demo_event_def)
  from h5 r5 r1 show ?thesis by (simp only: simp_thms)
qed

text \<open>
  C2 as the specification states it does not hold: after four attempts in which
  \<^verbatim>\<open>fetch\<close> threw (\<open>demo_failed_4\<close>, stored count 4), a fifth attempt that throws
  sets the status \<^verbatim>\<open>failed\<close>, and the event still carries the retry time that the
  fourth attempt scheduled.
\<close>

theorem deliverWebhook_throws_nextRetryAt_counterexample:
  "map we_attempts (webhookEvents demo_failed_4) = [4]
   \<and> attempts (fst (deliverWebhook demo_crypto
        (demo_runtime (Throws (Error ''fetch failed'')) 1700000900008) demo_delivery
        demo_failed_4)) = 5
   \<and> map we_status (webhookEvents (fst (snd (deliverWebhook demo_crypto
        (demo_runtime (Throws (Error ''fetch failed'')) 1700000900008) demo_delivery
        demo_failed_4)))) = [''failed'']
   \<and> map we_nextRetryAt (webhookEvents (fst (snd (deliverWebhook demo_crypto
        (demo_runtime (Throws (Error ''fetch failed'')) 1700000900008) demo_delivery
        demo_failed_4)))) = [Some 1700000900008]"
  by (simp add: demo_failed_4_eq deliverWebhook_def Let_def update_webhookEvents_def
        set_webhook_event_def next_attempt_find
        demo_store_def demo_delivery_def demo_event_def demo_runtime_def)

text \<open>
  C5 (as amended). Every call sends exactly one request, with the serialized payload as
  body. When \<^verbatim>\<open>webhookSecret\<close> is a non-empty string, the headers are the content type,
  the event id, the timestamp \<^verbatim>\<open>String(Date.now())\<close> and a signature header whose value is
  \<^verbatim>\<open>v1=\<close> followed by the lower-case hex text of the HMAC-SHA256, keyed by the secret, of
  the timestamp header's value, a dot and the body. When the secret is absent or the
  empty string, the headers are the first three only: there is no signature header.
\<close>

theorem deliverWebhook_signature:
  fixes lib rt input db
  defines "timestamp \<equiv> String_of_int (clock rt 0)"
    and "body \<equiv> JSON_stringify rt (payload input)"
  defines "base \<equiv>
     [(''Content-Type'', ''application/json''),
      (''X-Loop-Event-Id'', webhookEventId input),
      (''X-Loop-Timestamp'', timestamp)]"
  shows "snd (snd (deliverWebhook lib rt input db)) = [webhook_request lib rt input]
   \<and> req_body (webhook_request lib rt input) = body
   \<and> (\<forall>secret. webhookSecret input = Some secret \<and> secret \<noteq> [] \<longrightarrow>
         req_headers (webhook_request lib rt input) =
           base @
           [(''X-Loop-Signature'',
             ''v1='' @ toString_hex (createHmac_sha256 lib secret (timestamp @ ''.'' @ body)))]
         \<and> set (toString_hex (createHmac_sha256 lib secret (timestamp @ ''.'' @ body)))
             \<subseteq> set ''0123456789abcdef'')
   \<and> (webhookSecret input = None \<or> webhookSecret input = Some [] \<longrightarrow>
         req_headers (webhook_request lib rt input) = base)"
proof -
  have 1: "snd (snd (deliverWebhook lib rt input db)) = [webhook_request lib rt input]"
    by (simp add: deliverWebhook_def Let_def split: fetch_outcome.splits)
  have 2: "req_body (webhook_request lib rt input) = body"
    by (simp add: webhook_request_def Let_def body_def)
  have t: "header base ''X-Loop-Timestamp'' = timestamp"
    by (simp add: header_def base_def)
  have 3: "req_headers (webhook_request lib rt input) =
           base @
           [(''X-Loop-Signature'',
             ''v1='' @ toString_hex (createHmac_sha256 lib secret (timestamp @ ''.'' @ body)))]"
    if "webhookSecret input = Some secret \<and> secret \<noteq> []" for secret
    using that t
    by (simp add: webhook_request_def Let_def body_def base_def timestamp_def)
  have 4: "req_headers (webhook_request lib rt input) = base"
    if "webhookSecret input = None \<or> webhookSecret input = Some []"
    using that
    by (auto simp: webhook_request_def Let_def base_def timestamp_def)
  from 1 2 3 4 toString_hex_lower show ?thesis
    by (intro conjI allI impI) (assumption | rule 3 4 toString_hex_lower)+
qed

theorem deliverWebhook_signature_witness:
  "webhookSecret demo_signed_delivery = Some ''whsec'' \<and> ''whsec'' \<noteq> []
   \<and> req_headers (webhook_request demo_crypto (demo_runtime (Response 200) 1700000000000)
        demo_signed_delivery) =
       [(''Content-Type'', ''application/json''),
        (''X-Loop-Event-Id'', ''evt-1''),
        (''X-Loop-Timestamp'', ''1700000000000''),
        (''X-Loop-Signature'', ''v1=7768736563313730303030303030303030302e7b7d'')]
   \<and> webhookSecret demo_delivery = None
   \<and> req_headers (webhook_request demo_crypto (demo_runtime (Response 200) 1700000000000)
        demo_delivery) =
       [(''Content-Type'', ''application/json''),
        (''X-Loop-Event-Id'', ''evt-1''),
        (''X-Loop-Timestamp'', ''1700000000000'')]"
proof -
  let ?rt = "demo_runtime (Response 200) 1700000000000"
  have s: "webhookSecret demo_signed_delivery = Some ''whsec'' \<and> ''whsec'' \<noteq> []"
    by (simp add: demo_signed_delivery_def)
  have u: "webhookSecret demo_delivery = None \<or> webhookSecret demo_delivery = Some []"
    by (simp add: demo_delivery_def)
  have t: "String_of_int (clock ?rt 0) = ''1700000000000''"
    by (simp add: demo_runtime_def demo_timestamp)
  have b: "JSON_stringify ?rt j = ''{}''" for j
    by (simp add: demo_runtime_def)
  have e: "webhookEventId demo_signed_delivery = ''evt-1''"
    "webhookEventId demo_delivery = ''evt-1''"
    by (simp_all add: demo_signed_delivery_def demo_delivery_def)
  from deliverWebhook_signature [of demo_crypto ?rt demo_signed_delivery demo_store] s
  have "req_headers (webhook_request demo_crypto ?rt demo_signed_delivery) =
       [(''Content-Type'', ''application/json''),
        (''X-Loop-Event-Id'', ''evt-1''),
        (''X-Loop-Timestamp'', ''1700000000000''),
        (''X-Loop-Signature'',
         ''v1='' @ toString_hex (createHmac_sha256 demo_crypto ''whsec'' ''1700000000000.{}''))]"
    by (simp add: t b e)
  then have 1: "req_headers (webhook_request demo_crypto ?rt demo_signed_delivery) =
       [(''Content-Type'', ''application/json''),
        (''X-Loop-Event-Id'', ''evt-1''),
        (''X-Loop-Timestamp'', ''1700000000000''),
        (''X-Loop-Signature'', ''v1=7768736563313730303030303030303030302e7b7d'')]"
    by (simp only: createHmac_sha256_demo) simp
  from deliverWebhook_signature [of demo_crypto ?rt demo_delivery demo_store] u
  have 2: "req_headers (webhook_request demo_crypto ?rt demo_delivery) =
       [(''Content-Type'', ''application/json''),
        (''X-Loop-Event-Id'', ''evt-1''),
        (''X-Loop-Timestamp'', ''1700000000000'')]"
    by (simp add: t e)
  from s 1 2 show ?thesis
    by (simp add: demo_delivery_def)
qed

text \<open>
  C5 as the specification states it does not hold for a secret that is present and
  empty: the request then carries no signature header.
\<close>

theorem deliverWebhook_empty_secret_counterexample:
  "webhookSecret demo_empty_secret_delivery = Some []
   \<and> map fst (req_headers (webhook_request demo_crypto
        (demo_runtime (Response 200) 1700000000000) demo_empty_secret_delivery)) =
       [''Content-Type'', ''X-Loop-Event-Id'', ''X-Loop-Timestamp'']
   \<and> map (map fst \<circ> req_headers) (snd (snd (deliverWebhook demo_crypto
        (demo_runtime (Response 200) 1700000000000) demo_empty_secret_delivery demo_store))) =
       [[''Content-Type'', ''X-Loop-Event-Id'', ''X-Loop-Timestamp'']]"
  by (simp add: demo_empty_secret_delivery_def demo_delivery_def webhook_request_def
        deliverWebhook_def Let_def demo_runtime_def)

section \<open>Credential vault\<close>

text \<open>
  C6 (as amended). With AES-256-GCM and SHA-256 as the library provides them
  (\<open>aes_256_gcm\<close>), for every plaintext and every initialisation vector of \<open>IV_LENGTH\<close>
  octets that \<open>encrypt\<close> may draw, \<open>decrypt\<close> returns from the envelope that \<open>encrypt\<close>
  builds the plaintext with \<^verbatim>\<open>U+FFFD\<close> in place of every unpaired surrogate: the plaintext
  itself when it is well formed. The envelope is the hex text of the vector, a colon, the
  hex text of the authentication tag, a colon, and the hex ciphertext of the UTF-8 octets
  of the plaintext; and both functions use the key \<open>getKey\<close>, the SHA-256 digest of the
  configured secret.
\<close>

theorem decrypt_encrypt:
  fixes lib ENCRYPTION_KEY iv plaintext
  defines "c \<equiv> cipher_gcm lib (getKey lib ENCRYPTION_KEY) iv (utf8_encode plaintext)"
  assumes "aes_256_gcm lib" and "length iv = IV_LENGTH"
  shows "decrypt lib ENCRYPTION_KEY (encrypt lib ENCRYPTION_KEY iv plaintext)
           = Inr (toWellFormed plaintext)
       \<and> (well_formed plaintext \<longrightarrow>
            decrypt lib ENCRYPTION_KEY (encrypt lib ENCRYPTION_KEY iv plaintext)
              = Inr plaintext)
       \<and> encrypt lib ENCRYPTION_KEY iv plaintext =
           toString_hex iv @ '':'' @ toString_hex (snd c) @ '':'' @ fst c
       \<and> getKey lib ENCRYPTION_KEY = createHash_sha256 lib ENCRYPTION_KEY"
proof -
  obtain encrypted authTag where c: "c = (encrypted, authTag)"
    by (cases c)
  have k: "length (getKey lib ENCRYPTION_KEY) = 32"
    using assms(2) by (simp add: aes_256_gcm_def getKey_def)
  have "case cipher_gcm lib (getKey lib ENCRYPTION_KEY) iv (utf8_encode plaintext) of
           (encrypted, authTag) \<Rightarrow>
             CHR '':'' \<notin> set encrypted \<and>
             decipher_init lib (getKey lib ENCRYPTION_KEY) iv authTag = None \<and>
             decipher_gcm lib (getKey lib ENCRYPTION_KEY) iv authTag encrypted
               = Inr (utf8_encode plaintext)"
    using assms(2) [unfolded aes_256_gcm_def, THEN conjunct2, rule_format,
        of "getKey lib ENCRYPTION_KEY" iv "utf8_encode plaintext"] k assms(3)
    by simp
  then have colon: "CHR '':'' \<notin> set encrypted"
    and init: "decipher_init lib (getKey lib ENCRYPTION_KEY) iv authTag = None"
    and dec: "decipher_gcm lib (getKey lib ENCRYPTION_KEY) iv authTag encrypted
        = Inr (utf8_encode plaintext)"
    using c by (simp_all add: c_def)
  have e: "encrypt lib ENCRYPTION_KEY iv plaintext =
      toString_hex iv @ '':'' @ toString_hex authTag @ '':'' @ encrypted"
    using c by (simp add: encrypt_def c_def)
  note s = js_split_three [OF colon_notin_toString_hex colon_notin_toString_hex colon,
      of iv authTag]
  have d: "decrypt lib ENCRYPTION_KEY (encrypt lib ENCRYPTION_KEY iv plaintext)
      = Inr (toWellFormed plaintext)"
    using init dec
    by (simp add: e decrypt_def s Let_def Buffer_from_hex_toString_hex utf8_decode_encode)
  have "well_formed plaintext \<longrightarrow>
      decrypt lib ENCRYPTION_KEY (encrypt lib ENCRYPTION_KEY iv plaintext) = Inr plaintext"
    by (simp add: d toWellFormed_well_formed)
  with d e c show ?thesis
    by (simp add: getKey_def)
qed

theorem decrypt_encrypt_witness:
  "aes_256_gcm demo_crypto
   \<and> length demo_iv = IV_LENGTH
   \<and> well_formed (utf16 ''{}'')
   \<and> decrypt demo_crypto demo_key (encrypt demo_crypto demo_key demo_iv (utf16 ''{}''))
       = Inr (utf16 ''{}'')
   \<and> encrypt demo_crypto demo_key demo_iv (utf16 ''{}'') = demo_envelope"
proof -
  have l: "length demo_iv = IV_LENGTH"
    by (simp add: demo_iv_def IV_LENGTH_def)
  have w: "well_formed (utf16 ''{}'')"
    by (simp add: utf16_braces is_high_def is_low_def)
  note r = decrypt_encrypt [OF aes_256_gcm_demo l, of demo_key "utf16 ''{}''"]
  from r [THEN conjunct2, THEN conjunct1] w
  have d: "decrypt demo_crypto demo_key (encrypt demo_crypto demo_key demo_iv (utf16 ''{}''))
       = Inr (utf16 ''{}'')"
    by (rule mp)
  from r [THEN conjunct2, THEN conjunct2, THEN conjunct1]
  have e: "encrypt demo_crypto demo_key demo_iv (utf16 ''{}'') = demo_envelope"
    by (simp add: demo_crypto_def utf16_braces utf8_encode_braces toString_hex_braces
          toString_hex_demo_iv toString_hex_demo_tag demo_envelope_def)
  from aes_256_gcm_demo l w d e show ?thesis
    by (simp only: simp_thms)
qed

text \<open>
  C6 as the specification states it does not hold for every plaintext string. The string
  of the single code unit \<^verbatim>\<open>0xD800\<close>, a high surrogate without its low surrogate, is
  encrypted as the octets \<^verbatim>\<open>EF BF BD\<close> of \<^verbatim>\<open>U+FFFD\<close>, and \<open>decrypt\<close> returns the string of
  the code unit \<^verbatim>\<open>0xFFFD\<close> from its envelope, which is another string. (With
  \<open>demo_crypto\<close>, which meets \<open>aes_256_gcm\<close>; by the theorem above the result is the same
  with every library that does.)
\<close>

theorem decrypt_encrypt_surrogate_counterexample:
  "encrypt demo_crypto demo_key demo_iv [0xD800]
     = ''000102030405060708090a0b0c0d0e0f:00000000000000000000000000000000:efbfbd''
   \<and> decrypt demo_crypto demo_key (encrypt demo_crypto demo_key demo_iv [0xD800])
       = Inr [0xFFFD]
   \<and> [0xFFFD] \<noteq> [0xD800 :: 16 word]"
  by (simp add: encrypt_surrogate decrypt_replacement)




section \<open>Order and transaction ledger\<close>

text \<open>
  C8 (as amended). For an order that exists and a call whose \<^verbatim>\<open>processorTransactionId\<close>
  is a non-empty string, the transactions after the call are those before it followed by
  exactly one new row: for the given order id, with the amount of the order (the update
  of the order does not change any amount, so the order read again has the amount it
  had), type \<^verbatim>\<open>capture\<close> when the status is \<^verbatim>\<open>captured\<close> and \<^verbatim>\<open>authorization\<close> for any other
  status, and status \<^verbatim>\<open>failed\<close> exactly when the status argument is \<^verbatim>\<open>failed\<close>, otherwise
  \<^verbatim>\<open>success\<close>. For every call whose \<^verbatim>\<open>processorTransactionId\<close> is absent or the empty
  string, whatever the status and whether or not the order exists, the transactions after
  the call are those before it: no row is appended.
\<close>

theorem updateOrderStatus_transaction:
  "(find (\<lambda>r. o_id r = orderId input) (orders db) = Some order
      \<and> processorTransactionId input = Some transaction_id \<and> transaction_id \<noteq> [] \<longrightarrow>
      transactions (updateOrderStatus rt input db) =
        transactions db @
          [\<lparr>tx_id = defaultRandom rt, tx_orderId = orderId input,
            tx_type = (if status input = ''captured'' then ''capture'' else ''authorization''),
            tx_amount = o_amount order,
            tx_status = (if status input = ''failed'' then ''failed'' else ''success''),
            tx_processorTransactionId = Some transaction_id,
            tx_processorResponse = None, tx_errorCode = None, tx_errorMessage = None,
            tx_createdAt = defaultNow rt\<rparr>])
   \<and> (processorTransactionId input = None \<or> processorTransactionId input = Some [] \<longrightarrow>
        transactions (updateOrderStatus rt input db) = transactions db)
   \<and> map o_amount (orders (updateOrderStatus rt input db)) = map o_amount (orders db)"
proof -
  let ?v = "\<lparr>set_o_status = Some (status input),
             set_o_processorOrderId =
               (if truthy (processorOrderId input) then processorOrderId input else None),
             set_o_updatedAt = Some (clock rt 0)\<rparr>"
  let ?db1 = "update_orders ?v (orderId input) db"
  let ?row = "\<lparr>tx_id = defaultRandom rt, tx_orderId = orderId input,
            tx_type = (if status input = ''captured'' then ''capture'' else ''authorization''),
            tx_amount = o_amount order,
            tx_status = (if status input = ''failed'' then ''failed'' else ''success''),
            tx_processorTransactionId = Some transaction_id,
            tx_processorResponse = None, tx_errorCode = None, tx_errorMessage = None,
            tx_createdAt = defaultNow rt\<rparr>"
  have t1: "transactions ?db1 = transactions db"
    by (simp add: update_orders_def)
  have a1: "map o_amount (orders ?db1) = map o_amount (orders db)"
    by (simp add: update_orders_def set_order_amount)
  have appended: "transactions (updateOrderStatus rt input db) = transactions db @ [?row]"
    if f: "find (\<lambda>r. o_id r = orderId input) (orders db) = Some order"
      and t: "processorTransactionId input = Some transaction_id"
      and n: "transaction_id \<noteq> []"
  proof -
    have oid: "o_id order = orderId input"
      using f by (auto simp: find_Some_iff)
    have "find (\<lambda>r. o_id r = orderId input) (orders ?db1) = Some (set_order ?v order)"
      by (simp only: find_updated_order f option.map oid refl if_True)
    then have sel: "select_limit_1 (\<lambda>r. o_id r = orderId input) (orders ?db1)
        = [set_order ?v order]"
      by (simp add: select_limit_1_find)
    have u: "updateOrderStatus rt input db =
        insert_transaction rt (orderId input)
          (if status input = ''captured'' then ''capture'' else ''authorization'')
          (o_amount order)
          (if status input = ''failed'' then ''failed'' else ''success'')
          transaction_id ?db1"
      using t n sel
      by (simp add: updateOrderStatus_def Let_def set_order_amount)
    show ?thesis
      by (simp add: u insert_transaction_def t1)
  qed
  have skipped: "transactions (updateOrderStatus rt input db) = transactions db"
    if "processorTransactionId input = None \<or> processorTransactionId input = Some []"
  proof -
    from that have "updateOrderStatus rt input db = ?db1"
      by (auto simp: updateOrderStatus_def Let_def)
    then show ?thesis
      by (simp add: t1)
  qed
  have "orders (updateOrderStatus rt input db) = orders ?db1"
    by (simp add: updateOrderStatus_def Let_def insert_transaction_def
          split: option.splits list.splits)
  then have amounts:
    "map o_amount (orders (updateOrderStatus rt input db)) = map o_amount (orders db)"
    by (simp add: a1)
  from appended skipped amounts show ?thesis
    by (intro conjI impI) (elim conjE, assumption+)
qed

theorem updateOrderStatus_transaction_witness:
  "find (\<lambda>r. o_id r = orderId demo_capture) (orders demo_order_store) = Some demo_order
   \<and> processorTransactionId demo_capture = Some ''ch_1'' \<and> ''ch_1'' \<noteq> []
   \<and> transactions (updateOrderStatus (demo_runtime (Response 200) 1700000000000)
        demo_capture demo_order_store) =
       [\<lparr>tx_id = ''7d0c3a52-0000-4000-8000-000000000001'', tx_orderId = ''ord-1'',
         tx_type = ''capture'', tx_amount = 2500, tx_status = ''success'',
         tx_processorTransactionId = Some ''ch_1'',
         tx_processorResponse = None, tx_errorCode = None, tx_errorMessage = None,
         tx_createdAt = 1700000000000\<rparr>]
   \<and> processorTransactionId demo_refund_no_id = Some []
   \<and> status demo_refund_no_id = ''refunded''
   \<and> transactions (updateOrderStatus (demo_runtime (Response 200) 1700000000000)
        demo_refund_no_id demo_order_store) = []"
proof -
  let ?rt = "demo_runtime (Response 200) 1700000000000"
  have h1: "find (\<lambda>r. o_id r = orderId demo_capture) (orders demo_order_store)
      = Some demo_order"
    by (simp add: demo_capture_def demo_order_store_def demo_order_def)
  have h2: "processorTransactionId demo_capture = Some ''ch_1''"
    by (simp add: demo_capture_def)
  have h3: "''ch_1'' \<noteq> []"
    by simp
  from updateOrderStatus_transaction
    [of demo_capture demo_order_store demo_order "''ch_1''" ?rt, THEN conjunct1]
    h1 h2 h3
  have "transactions (updateOrderStatus ?rt demo_capture demo_order_store) =
       transactions demo_order_store @
          [\<lparr>tx_id = defaultRandom ?rt, tx_orderId = orderId demo_capture,
            tx_type =
              (if status demo_capture = ''captured'' then ''capture'' else ''authorization''),
            tx_amount = o_amount demo_order,
            tx_status = (if status demo_capture = ''failed'' then ''failed'' else ''success''),
            tx_processorTransactionId = Some ''ch_1'',
            tx_processorResponse = None, tx_errorCode = None, tx_errorMessage = None,
            tx_createdAt = defaultNow ?rt\<rparr>]"
    by blast
  then have 1: "transactions (updateOrderStatus ?rt demo_capture demo_order_store) =
       [\<lparr>tx_id = ''7d0c3a52-0000-4000-8000-000000000001'', tx_orderId = ''ord-1'',
         tx_type = ''capture'', tx_amount = 2500, tx_status = ''success'',
         tx_processorTransactionId = Some ''ch_1'',
         tx_processorResponse = None, tx_errorCode = None, tx_errorMessage = None,
         tx_createdAt = 1700000000000\<rparr>]"
    by (simp add: demo_capture_def demo_order_store_def demo_order_def demo_runtime_def)
  have h4: "processorTransactionId demo_refund_no_id = Some []"
    and h5: "status demo_refund_no_id = ''refunded''"
    by (simp_all add: demo_refund_no_id_def)
  from updateOrderStatus_transaction
    [of demo_refund_no_id demo_order_store demo_order "''ch_1''" ?rt,
      THEN conjunct2, THEN conjunct1] h4
  have "transactions (updateOrderStatus ?rt demo_refund_no_id demo_order_store)
      = transactions demo_order_store"
    by blast
  then have 2: "transactions (updateOrderStatus ?rt demo_refund_no_id demo_order_store) = []"
    by (simp add: demo_order_store_def)
  from h1 h2 h3 1 h4 h5 2 show ?thesis
    by (simp only: simp_thms)
qed

text \<open>
  C8 as the specification states it does not hold for a transaction id that is set and
  empty: the order exists and its status is updated, and no transaction row is appended.
\<close>

theorem updateOrderStatus_empty_transaction_id_counterexample:
  "find (\<lambda>r. o_id r = ''ord-1'') (orders demo_order_store) = Some demo_order
   \<and> processorTransactionId (demo_capture\<lparr>processorTransactionId := Some []\<rparr>) = Some []
   \<and> transactions (updateOrderStatus (demo_runtime (Response 200) 1700000000000)
        (demo_capture\<lparr>processorTransactionId := Some []\<rparr>) demo_order_store) = []
   \<and> map o_status (orders (updateOrderStatus (demo_runtime (Response 200) 1700000000000)
        (demo_capture\<lparr>processorTransactionId := Some []\<rparr>) demo_order_store))
       = [''captured'']"
  by (simp add: updateOrderStatus_def Let_def update_orders_def set_order_def truthy_def
        demo_capture_def demo_order_store_def demo_order_def demo_runtime_def)

text \<open>
  C9. When no order has the given id, \<open>updateOrderStatus\<close> returns the store it was given:
  the update rewrites no row and no transaction is inserted, whatever the other
  arguments. (The function has no error outcome of its own; errors of the store are not
  modelled.)
\<close>

theorem updateOrderStatus_unknown_order:
  assumes "orderId input \<notin> o_id ` set (orders db)"
  shows "updateOrderStatus rt input db = db"
proof -
  let ?v = "\<lparr>set_o_status = Some (status input),
             set_o_processorOrderId =
               (if truthy (processorOrderId input) then processorOrderId input else None),
             set_o_updatedAt = Some (clock rt 0)\<rparr>"
  have no: "\<forall>r \<in> set (orders db). o_id r \<noteq> orderId input"
    using assms by (auto simp: image_iff)
  then have m: "map (\<lambda>r. if o_id r = orderId input then set_order ?v r else r) (orders db)
      = orders db"
    by (simp add: map_idI)
  have db1: "update_orders ?v (orderId input) db = db"
    by (simp add: update_orders_def m)
  have "filter (\<lambda>r. o_id r = orderId input) (orders db) = []"
    using no by (simp add: filter_empty_conv)
  then have sel: "select_limit_1 (\<lambda>r. o_id r = orderId input) (orders db) = []"
    by (simp add: select_limit_1_def)
  show ?thesis
    by (simp add: updateOrderStatus_def Let_def db1 sel split: option.splits)
qed

theorem updateOrderStatus_unknown_order_witness:
  "orderId (demo_capture\<lparr>orderId := ''ord-404''\<rparr>) \<notin> o_id ` set (orders demo_order_store)
   \<and> updateOrderStatus (demo_runtime (Response 200) 1700000000000)
        (demo_capture\<lparr>orderId := ''ord-404''\<rparr>) demo_order_store = demo_order_store"
proof -
  have h: "orderId (demo_capture\<lparr>orderId := ''ord-404''\<rparr>)
      \<notin> o_id ` set (orders demo_order_store)"
    by (simp add: demo_capture_def demo_order_store_def demo_order_def)
  from h updateOrderStatus_unknown_order [OF h] show ?thesis
    by (simp only: simp_thms)
qed

section \<open>Config lookup\<close>

text \<open>
  C10. When \<open>c\<close> is the first row of \<^verbatim>\<open>processor_configs\<close>, in the order the query scans
  them, whose merchant and processor are the requested ones, \<open>getProcessorConfig\<close>
  returns the credentials decrypted and parsed from the blob of \<open>c\<close>, with the test-mode
  flag of \<open>c\<close> (or the error of \<open>decrypt\<close> or \<^verbatim>\<open>JSON.parse\<close>), whether or not \<open>c\<close> is enabled
  and whatever rows follow it. Neither the enabled flag nor the priority is read:
  rewriting both columns in every row, in any way, does not change the result.
\<close>

theorem getProcessorConfig_first_match:
  assumes "find (\<lambda>r. pc_merchantId r = m \<and> pc_processor r = p) (processorConfigs db)
      = Some c"
  shows "getProcessorConfig lib ENCRYPTION_KEY rt m p db =
     (case decrypt lib ENCRYPTION_KEY (pc_credentialsEncrypted c) of
        Inl e \<Rightarrow> Inl e
      | Inr text \<Rightarrow>
          (case JSON_parse rt text of
             Inl e \<Rightarrow> Inl e
           | Inr creds \<Rightarrow>
               Inr (Some \<lparr>merchantId = m, processor = p, testMode = pc_testMode c,
                          credentials = creds\<rparr>)))
   \<and> getProcessorConfig lib ENCRYPTION_KEY rt m p
        (db\<lparr>processorConfigs :=
              map (\<lambda>r. r\<lparr>pc_enabled := en r, pc_priority := pr r\<rparr>) (processorConfigs db)\<rparr>)
       = getProcessorConfig lib ENCRYPTION_KEY rt m p db"
proof -
  let ?q = "\<lambda>r. pc_merchantId r = m \<and> pc_processor r = p"
  let ?f = "\<lambda>r. r\<lparr>pc_enabled := en r, pc_priority := pr r\<rparr>"
  have 1: "select_limit_1 ?q (processorConfigs db) = [c]"
    using assms by (simp add: select_limit_1_find)
  have "find ?q (map ?f (processorConfigs db)) = map_option ?f (find ?q (processorConfigs db))"
    by (rule find_map_key) simp
  then have 2: "select_limit_1 ?q (map ?f (processorConfigs db)) = [?f c]"
    using assms by (simp add: select_limit_1_find)
  show ?thesis
    by (simp add: getProcessorConfig_def Let_def 1 2 split: sum.splits)
qed

theorem getProcessorConfig_first_match_witness:
  "find (\<lambda>r. pc_merchantId r = ''m-1'' \<and> pc_processor r = ''stripe'')
     (processorConfigs demo_configs) = Some demo_config_disabled
   \<and> pc_enabled demo_config_disabled = False
   \<and> map pc_priority (processorConfigs demo_configs) = [1, 2, 1]
   \<and> getProcessorConfig demo_crypto demo_key (demo_runtime (Response 200) 0)
        ''m-1'' ''stripe'' demo_configs
       = Inr (Some \<lparr>merchantId = ''m-1'', processor = ''stripe'', testMode = False,
                   credentials = JObj []\<rparr>)"
proof -
  have h: "find (\<lambda>r. pc_merchantId r = ''m-1'' \<and> pc_processor r = ''stripe'')
     (processorConfigs demo_configs) = Some demo_config_disabled"
    by (simp add: demo_configs_def demo_config_other_def demo_config_disabled_def)
  have d: "decrypt demo_crypto demo_key (pc_credentialsEncrypted demo_config_disabled)
      = Inr (utf16 ''{}'')"
    by (simp add: demo_config_disabled_def decrypt_demo_envelope)
  have j: "JSON_parse (demo_runtime (Response 200) 0) (utf16 ''{}'') = Inr (JObj [])"
    by (simp add: demo_runtime_def)
  have t: "pc_testMode demo_config_disabled = False" "pc_enabled demo_config_disabled = False"
    by (simp_all add: demo_config_disabled_def)
  have p: "map pc_priority (processorConfigs demo_configs) = [1, 2, 1]"
    by (simp add: demo_configs_def demo_config_other_def demo_config_disabled_def
          demo_config_enabled_def)
  from getProcessorConfig_first_match [OF h, of demo_crypto demo_key
      "demo_runtime (Response 200) 0", THEN conjunct1]
  have "getProcessorConfig demo_crypto demo_key (demo_runtime (Response 200) 0)
        ''m-1'' ''stripe'' demo_configs
       = Inr (Some \<lparr>merchantId = ''m-1'', processor = ''stripe'', testMode = False,
                   credentials = JObj []\<rparr>)"
    by (simp add: d j t)
  with h t p show ?thesis
    by (simp only: simp_thms)
qed

end
